theory Spec2Isabelle
  imports Complex_Main
begin

section \<open>JavaScript strings\<close>

text \<open>
  A JavaScript string is a sequence of UTF-16 code units; \<open>length\<close>, \<open>trim\<close>,
  \<open>startsWith\<close> and the regular expressions of the sources all work on code units.
  A code unit is modelled by its number. \<open>js\<close> turns an ASCII literal into such a string.
\<close>

type_synonym jsstring = "nat list"

definition js :: "string \<Rightarrow> jsstring" where
  "js s = map of_char s"

text \<open>
  The characters that \<open>String.prototype.trim\<close> removes and that \<open>\s\<close> matches:
  WhiteSpace and LineTerminator of ECMAScript (TAB, LF, VT, FF, CR, SP, NBSP, U+1680,
  U+2000 to U+200A, U+2028, U+2029, U+202F, U+205F, U+3000, U+FEFF).
\<close>

definition isWhiteSpace :: "nat \<Rightarrow> bool" where
  "isWhiteSpace c \<longleftrightarrow>
     c = 9 \<or> c = 10 \<or> c = 11 \<or> c = 12 \<or> c = 13 \<or> c = 32 \<or> c = 160 \<or> c = 5760 \<or>
     (8192 \<le> c \<and> c \<le> 8202) \<or> c = 8232 \<or> c = 8233 \<or> c = 8239 \<or> c = 8287 \<or>
     c = 12288 \<or> c = 65279"

text \<open>\<open>\d\<close> is \<open>[0-9]\<close>, \<open>\D\<close> its complement.\<close>

definition isDigit :: "nat \<Rightarrow> bool" where
  "isDigit c \<longleftrightarrow> 48 \<le> c \<and> c \<le> 57"

definition isLowerAZ :: "nat \<Rightarrow> bool" where
  "isLowerAZ c \<longleftrightarrow> 97 \<le> c \<and> c \<le> 122"

definition isUpperAZ :: "nat \<Rightarrow> bool" where
  "isUpperAZ c \<longleftrightarrow> 65 \<le> c \<and> c \<le> 90"

definition trim :: "jsstring \<Rightarrow> jsstring" where
  "trim s = rev (dropWhile isWhiteSpace (rev (dropWhile isWhiteSpace s)))"

definition startsWith :: "jsstring \<Rightarrow> jsstring \<Rightarrow> bool" where
  "startsWith s p \<longleftrightarrow> take (length p) s = p"

section \<open>Phone normalisation (server/index.ts)\<close>

text \<open>
  \<^verbatim>\<open>
  function normalizeToE164Like(input: string, defaultCountryCode = "1"): string | null {
    const raw = (input ?? "").trim();
    if (!raw) return null;
    if (raw.startsWith("+")) {
      const digits = raw.replace(/\D/g, "");
      return digits ? `+${digits}` : null;
    }
    const digits = raw.replace(/\D/g, "");
    if (digits.length === 11 && digits.startsWith("1")) return `+${digits}`;
    if (digits.length === 10) return `+${defaultCountryCode}${digits}`;
    if (digits.length >= 7 && digits.length <= 15) return `+${digits}`;
    return null;
  }
  \<close>
  \<open>null\<close> is \<open>None\<close>. Both call sites pass one argument, so the country code is
  the default \<open>"1"\<close> there.
\<close>

definition normalizeToE164Like :: "jsstring \<Rightarrow> jsstring \<Rightarrow> jsstring option" where
  "normalizeToE164Like input defaultCountryCode =
     (let raw = trim input in
      if raw = [] then None
      else if startsWith raw (js ''+'') then
        (let digits = filter isDigit raw in
         if digits \<noteq> [] then Some (js ''+'' @ digits) else None)
      else
        (let digits = filter isDigit raw in
         if length digits = 11 \<and> startsWith digits (js ''1'') then Some (js ''+'' @ digits)
         else if length digits = 10 then Some (js ''+'' @ defaultCountryCode @ digits)
         else if length digits \<ge> 7 \<and> length digits \<le> 15 then Some (js ''+'' @ digits)
         else None))"

definition normalizeToE164Like_default :: "jsstring \<Rightarrow> jsstring option" where
  "normalizeToE164Like_default input = normalizeToE164Like input (js ''1'')"

text \<open>
  The rule as the specification words it: the digits are those of the input itself, the
  test for a leading \<open>+\<close> is made on the trimmed input, and the empty string falls under
  "anything else".
\<close>

definition spec_phone_rule :: "jsstring \<Rightarrow> jsstring option" where
  "spec_phone_rule input =
     (let digits = filter isDigit input in
      if startsWith (trim input) (js ''+'') then
        (if digits = [] then None else Some (js ''+'' @ digits))
      else if length digits = 11 \<and> hd digits = 49 then Some (js ''+'' @ digits)
      else if length digits = 10 then Some (js ''+'' @ js ''1'' @ digits)
      else if 7 \<le> length digits \<and> length digits \<le> 15 then Some (js ''+'' @ digits)
      else None)"

section \<open>Transcript messages and deduplication (VoiceAgent component)\<close>

text \<open>
  \<^verbatim>\<open>interface TranscriptMessage { role: string; text: string; timestamp: number; }\<close>
  Timestamps are values of \<open>Date.now()\<close>, whole milliseconds. The field \<open>text\<close> is
  written \<open>text'\<close>.
\<close>

record TranscriptMessage =
  role :: jsstring
  text' :: jsstring
  timestamp :: int

text \<open>
  \<open>String.prototype.toLowerCase\<close>, code unit by code unit. The ASCII capitals map to
  their small letters. Outside ASCII exactly two characters have a lower case with an
  ASCII letter in it: U+0130 (to \<open>i\<close> followed by U+0307) and the Kelvin sign U+212A
  (to \<open>k\<close>). The remaining entries of the Unicode table are not reproduced: they send
  characters outside ASCII to characters outside ASCII that are no white space, and the
  one caller deletes all of those in its next step, whichever they are.
\<close>

definition lowerUnit :: "nat \<Rightarrow> jsstring" where
  "lowerUnit c =
     (if isUpperAZ c then [c + 32]
      else if c = 304 then [105, 775]
      else if c = 8490 then [107]
      else [c])"

definition toLowerCase :: "jsstring \<Rightarrow> jsstring" where
  "toLowerCase s = concat (map lowerUnit s)"

text \<open>\<^verbatim>\<open>.replace(/[^a-z0-9\s]/g, '')\<close> keeps the characters of the class.\<close>

definition replace_not_az09s :: "jsstring \<Rightarrow> jsstring" where
  "replace_not_az09s s = filter (\<lambda>c. isLowerAZ c \<or> isDigit c \<or> isWhiteSpace c) s"

text \<open>
  \<^verbatim>\<open>
  const deduplicateTranscript = (messages: TranscriptMessage[]): TranscriptMessage[] => {
    const seenKeys = new Set<string>();
    const uniqueMessages: TranscriptMessage[] = [];
    for (const message of messages) {
      const normalizedText = message.text.toLowerCase().replace(/[^a-z0-9\s]/g, '').trim();
      const key = `${message.role}|${normalizedText}`;
      if (seenKeys.has(key)) continue;
      seenKeys.add(key);
      uniqueMessages.push(message);
    }
    return uniqueMessages;
  };
  \<close>
  The loop carries \<open>seenKeys\<close> and \<open>uniqueMessages\<close>.
\<close>

definition normalizedText :: "TranscriptMessage \<Rightarrow> jsstring" where
  "normalizedText message = trim (replace_not_az09s (toLowerCase (text' message)))"

definition key :: "TranscriptMessage \<Rightarrow> jsstring" where
  "key message = role message @ js ''|'' @ normalizedText message"

fun dedup_loop ::
  "TranscriptMessage list \<Rightarrow> jsstring set \<Rightarrow> TranscriptMessage list \<Rightarrow> TranscriptMessage list"
where
  "dedup_loop [] seenKeys uniqueMessages = uniqueMessages"
| "dedup_loop (message # messages) seenKeys uniqueMessages =
     (if key message \<in> seenKeys then dedup_loop messages seenKeys uniqueMessages
      else dedup_loop messages (insert (key message) seenKeys) (uniqueMessages @ [message]))"

definition deduplicateTranscript :: "TranscriptMessage list \<Rightarrow> TranscriptMessage list" where
  "deduplicateTranscript messages = dedup_loop messages {} []"

text \<open>
  The filter as the specification words it: the key of a message is the pair of its role
  and its text, lower-cased, without the characters that are no ASCII letter, digit or
  white space, and trimmed; a message stays when no earlier message of the list has its key.
\<close>

definition spec_normalize :: "jsstring \<Rightarrow> jsstring" where
  "spec_normalize t =
     trim (filter (\<lambda>c. isLowerAZ c \<or> isUpperAZ c \<or> isDigit c \<or> isWhiteSpace c) (toLowerCase t))"

definition spec_key :: "TranscriptMessage \<Rightarrow> jsstring \<times> jsstring" where
  "spec_key m = (role m, spec_normalize (text' m))"

definition spec_dedup :: "TranscriptMessage list \<Rightarrow> TranscriptMessage list" where
  "spec_dedup ms =
     map (\<lambda>i. ms ! i)
       (filter (\<lambda>i. \<forall>j<i. spec_key (ms ! j) \<noteq> spec_key (ms ! i)) [0..<length ms])"

text \<open>
  The first occurrences of a list under a key function, given the keys seen so far: the
  shape of the loop, for any key.
\<close>

fun firsts :: "('a \<Rightarrow> 'k) \<Rightarrow> 'k set \<Rightarrow> 'a list \<Rightarrow> 'a list" where
  "firsts k S [] = []"
| "firsts k S (x # xs) =
     (if k x \<in> S then firsts k S xs else x # firsts k (insert (k x) S) xs)"

section \<open>The session state of the VoiceAgent component\<close>

text \<open>
  The component keeps its state in React state cells and refs:
  \<^verbatim>\<open>
  const [vapi, setVapi] = useState<Vapi | null>(null);
  const [isConnected, setIsConnected] = useState(false);
  const [isSpeaking, setIsSpeaking] = useState(false);
  const [isListening, setIsListening] = useState(false);
  const [transcript, setTranscript] = useState<TranscriptMessage[]>([]);
  const [error, setError] = useState<string | null>(null);
  const [callEnded, setCallEnded] = useState(false);
  const transcriptRef = useRef<TranscriptMessage[]>([]);
  const callStartedAtRef = useRef<number | null>(null);
  \<close>
  \<open>vapi\<close> records whether the instance is set. \<open>messageTimeoutRef\<close> is never assigned, so
  it stays null and the branch that reads it never runs; it is left out. \<open>posted\<close> collects
  the bodies of the requests the call-end handler has sent to \<open>/api/transcripts\<close>.
  \<open>starting\<close> counts the calls of \<open>startCall\<close> that are waiting at
  \<open>await vapi.start(assistantId)\<close>.
\<close>

record TranscriptPayload =
  payload_transcript :: "TranscriptMessage list"
  startedAt :: "int option"
  endedAt :: int
  payload_assistantId :: jsstring

record VoiceAgent =
  vapi :: bool
  isConnected :: bool
  isSpeaking :: bool
  isListening :: bool
  transcript :: "TranscriptMessage list"
  error :: "jsstring option"
  callEnded :: bool
  transcriptRef :: "TranscriptMessage list"
  callStartedAtRef :: "int option"
  posted :: "TranscriptPayload list"
  starting :: nat

text \<open>
  \<^verbatim>\<open>type VapiMessage = { type: string; role?: string; transcript?: string };\<close>
  An absent optional field is \<open>None\<close>.
\<close>

datatype VapiMessage =
  VapiMessage (message_type: jsstring) (message_role: "jsstring option")
    (message_transcript: "jsstring option")

text \<open>
  The state after mounting: \<open>initializeVapi\<close> either constructs the instance and registers
  the handlers, or catches the constructor's exception and sets the error.
\<close>

definition initial_state :: "bool \<Rightarrow> VoiceAgent" where
  "initial_state constructed =
     \<lparr>vapi = constructed, isConnected = False, isSpeaking = False, isListening = False,
      transcript = [],
      error = (if constructed then None else Some (js ''Failed to initialize voice assistant.'')),
      callEnded = False, transcriptRef = [], callStartedAtRef = None, posted = [],
      starting = 0\<rparr>"

text \<open>
  \<^verbatim>\<open>
  vapiInstance.on("call-start", () => {
    setIsConnected(true); setError(null); setCallEnded(false);
    callStartedAtRef.current = Date.now();
  });
  \<close>
  Every handler that reads the clock takes the value of \<open>Date.now()\<close> as \<open>now\<close>.
\<close>

definition on_call_start :: "int \<Rightarrow> VoiceAgent \<Rightarrow> VoiceAgent" where
  "on_call_start now s =
     s\<lparr>isConnected := True, error := None, callEnded := False, callStartedAtRef := Some now\<rparr>"

text \<open>
  \<^verbatim>\<open>
  vapiInstance.on("call-end", () => {
    setIsConnected(false); setIsSpeaking(false); setIsListening(false); setCallEnded(true);
    const finalTranscript = deduplicateTranscript(transcriptRef.current);
    const payload = { transcript: finalTranscript,
                      startedAt: callStartedAtRef.current ?? undefined,
                      endedAt: Date.now(), assistantId };
    void fetch("/api/transcripts", { method: "POST", ..., body: JSON.stringify(payload) });
    callStartedAtRef.current = null;
    setTimeout(() => { setCallEnded(false); vapiInstance.stop(); }, 3000);
  });
  \<close>
  The timer's callback is the handler \<open>on_call_ended_timeout\<close>.
\<close>

definition on_call_end :: "jsstring \<Rightarrow> int \<Rightarrow> VoiceAgent \<Rightarrow> VoiceAgent" where
  "on_call_end assistantId now s =
     (let finalTranscript = deduplicateTranscript (transcriptRef s);
          payload = \<lparr>payload_transcript = finalTranscript, startedAt = callStartedAtRef s,
                     endedAt = now, payload_assistantId = assistantId\<rparr>
      in s\<lparr>isConnected := False, isSpeaking := False, isListening := False, callEnded := True,
           callStartedAtRef := None, posted := posted s @ [payload]\<rparr>)"

definition on_call_ended_timeout :: "VoiceAgent \<Rightarrow> VoiceAgent" where
  "on_call_ended_timeout s = s\<lparr>callEnded := False\<rparr>"

text \<open>
  \<^verbatim>\<open>
  vapiInstance.on("speech-start", () => { setIsSpeaking(true); setIsListening(false); });
  vapiInstance.on("speech-end", () => { setIsSpeaking(false); setIsListening(true); });
  \<close>
\<close>

definition on_speech_start :: "VoiceAgent \<Rightarrow> VoiceAgent" where
  "on_speech_start s = s\<lparr>isSpeaking := True, isListening := False\<rparr>"

definition on_speech_end :: "VoiceAgent \<Rightarrow> VoiceAgent" where
  "on_speech_end s = s\<lparr>isSpeaking := False, isListening := True\<rparr>"

text \<open>
  \<^verbatim>\<open>
  vapiInstance.on("message", (message: VapiMessage) => {
    if (message.type === "transcript") {
      const role = String(message.role ?? "");
      const text = String(message.transcript ?? "").trim();
      if (!text) return;
      ...
      setTranscript((prev) => {
        const lastMessage = prev[prev.length - 1];
        if (lastMessage && lastMessage.role === role &&
            Date.now() - lastMessage.timestamp < 3000) {
          const updatedMessages = [...prev];
          updatedMessages[updatedMessages.length - 1] =
            { ...lastMessage, text: text, timestamp: Date.now() };
          return updatedMessages;
        }
        return [...prev, { role, text, timestamp: Date.now() }];
      });
    }
  });
  \<close>
  \<open>prev[prev.length - 1]\<close> is undefined on the empty array, which the test \<open>lastMessage &&\<close>
  catches. The readings of the clock inside one run of the updater are one \<open>now\<close>.
\<close>

definition fragment_role :: "VapiMessage \<Rightarrow> jsstring" where
  "fragment_role message = (case message_role message of None \<Rightarrow> [] | Some r \<Rightarrow> r)"

definition fragment_raw :: "VapiMessage \<Rightarrow> jsstring" where
  "fragment_raw message = (case message_transcript message of None \<Rightarrow> [] | Some t \<Rightarrow> t)"

definition fragment_text :: "VapiMessage \<Rightarrow> jsstring" where
  "fragment_text message = trim (fragment_raw message)"

definition setTranscript_updater ::
  "jsstring \<Rightarrow> jsstring \<Rightarrow> int \<Rightarrow> TranscriptMessage list \<Rightarrow> TranscriptMessage list"
where
  "setTranscript_updater r t now prev =
     (if prev \<noteq> [] \<and> role (last prev) = r \<and> now - timestamp (last prev) < 3000
      then prev[length prev - 1 := (last prev)\<lparr>text' := t, timestamp := now\<rparr>]
      else prev @ [\<lparr>role = r, text' = t, timestamp = now\<rparr>])"

definition on_message :: "VapiMessage \<Rightarrow> int \<Rightarrow> VoiceAgent \<Rightarrow> VoiceAgent" where
  "on_message message now s =
     (if message_type message = js ''transcript'' then
        (let r = fragment_role message; t = fragment_text message in
         if t = [] then s
         else s\<lparr>transcript := setTranscript_updater r t now (transcript s)\<rparr>)
      else s)"

text \<open>
  \<^verbatim>\<open>
  vapiInstance.on("error", () => {
    setError("Error connecting to voice assistant. Please try again.");
  });
  \<close>
\<close>

definition on_error :: "VoiceAgent \<Rightarrow> VoiceAgent" where
  "on_error s = s\<lparr>error := Some (js ''Error connecting to voice assistant. Please try again.'')\<rparr>"

text \<open>
  \<^verbatim>\<open>
  const startCall = async () => {
    if (!vapi) return;
    try {
      setError(null); setTranscript([]);
      await vapi.start(assistantId);
      setIsListening(true);
    } catch (err) {
      setError("Failed to start voice call. Please check your permissions.");
    }
  };
  const endCall = async () => {
    if (!vapi) return;
    try { await vapi.stop(); } catch (err) { }
  };
  \<close>
  \<open>startCall\<close> runs up to the \<open>await\<close> and returns to the event loop: the handlers of
  the events that arrive while \<open>vapi.start\<close> is pending run before the rest of it.
  \<open>startCall_settled\<close> is that rest, run when the promise settles: \<open>started\<close> tells
  whether \<open>vapi.start\<close> resolved or rejected. \<open>vapi.stop\<close> changes nothing in the
  component: the end of the call reaches it as a call-end event.
\<close>

definition startCall :: "VoiceAgent \<Rightarrow> VoiceAgent" where
  "startCall s =
     (if \<not> vapi s then s
      else s\<lparr>error := None, transcript := [], starting := starting s + 1\<rparr>)"

definition startCall_settled :: "bool \<Rightarrow> VoiceAgent \<Rightarrow> VoiceAgent" where
  "startCall_settled started s =
     (if starting s = 0 then s
      else if started then s\<lparr>isListening := True, starting := starting s - 1\<rparr>
      else s\<lparr>error := Some (js ''Failed to start voice call. Please check your permissions.''),
             starting := starting s - 1\<rparr>)"

definition endCall :: "VoiceAgent \<Rightarrow> VoiceAgent" where
  "endCall s = s"

text \<open>
  \<^verbatim>\<open>useEffect(() => { transcriptRef.current = transcript; }, [transcript]);\<close>
  runs after the render that follows a handler.
\<close>

definition sync_transcriptRef :: "VoiceAgent \<Rightarrow> VoiceAgent" where
  "sync_transcriptRef s = s\<lparr>transcriptRef := transcript s\<rparr>"

datatype event =
    CallStart int
  | CallEnd int
  | CallEndedTimeout
  | SpeechStart
  | SpeechEnd
  | Message VapiMessage int
  | Error
  | StartCall
  | StartCallSettled bool
  | EndCall

fun handle :: "jsstring \<Rightarrow> event \<Rightarrow> VoiceAgent \<Rightarrow> VoiceAgent" where
  "handle assistantId (CallStart now) s = on_call_start now s"
| "handle assistantId (CallEnd now) s = on_call_end assistantId now s"
| "handle assistantId CallEndedTimeout s = on_call_ended_timeout s"
| "handle assistantId SpeechStart s = on_speech_start s"
| "handle assistantId SpeechEnd s = on_speech_end s"
| "handle assistantId (Message message now) s = on_message message now s"
| "handle assistantId Error s = on_error s"
| "handle assistantId StartCall s = startCall s"
| "handle assistantId (StartCallSettled started) s = startCall_settled started s"
| "handle assistantId EndCall s = endCall s"

definition step :: "jsstring \<Rightarrow> VoiceAgent \<Rightarrow> event \<Rightarrow> VoiceAgent" where
  "step assistantId s ev = sync_transcriptRef (handle assistantId ev s)"

definition run :: "jsstring \<Rightarrow> VoiceAgent \<Rightarrow> event list \<Rightarrow> VoiceAgent" where
  "run assistantId s evs = foldl (step assistantId) s evs"




definition exclusive :: "VoiceAgent \<Rightarrow> bool" where
  "exclusive s \<longleftrightarrow> \<not> (isSpeaking s \<and> isListening s)"

section \<open>Request bodies and schema validation (server/index.ts)\<close>

text \<open>
  \<open>req.body\<close> is the value \<open>express.json()\<close> parsed from the request. An object is the
  list of its properties, looked up by name. A number is the double \<open>JSON.parse\<close> gives:
  a finite one, carried as the real it denotes, or an infinite one, which \<open>JSON.parse\<close>
  gives for a literal beyond the range of the doubles such as \<open>1e309\<close> (\<open>Infinite True\<close>
  is \<open>Infinity\<close>, \<open>Infinite False\<close> is \<open>-Infinity\<close>). \<open>JSON.parse\<close> gives no NaN. The
  handlers test that a value is a number and pass it on, and never compute with it.
\<close>

datatype jsnumber = Finite real | Infinite bool

datatype json =
    JNull
  | JBool bool
  | JNumber jsnumber
  | JString jsstring
  | JArray "json list"
  | JObject "(jsstring \<times> json) list"

definition get_prop :: "(jsstring \<times> json) list \<Rightarrow> jsstring \<Rightarrow> json option" where
  "get_prop obj k = map_of obj k"

text \<open>
  What \<open>safeParse\<close> of the zod library reports on failure is a list of issues, each with
  a code and the path of the offending value; \<open>parsed.error.flatten()\<close> is computed from
  that list. A parser returns \<open>Inl\<close> of its issues or \<open>Inr\<close> of the parsed value. The
  argument of a field parser is the property's value, \<open>None\<close> when the property is absent
  (\<open>undefined\<close>).
\<close>

datatype path_elem = Key jsstring | Index nat

datatype issue_code = invalid_type | too_small

datatype ZodIssue = ZodIssue (code: issue_code) (path: "path_elem list")

definition issues_of :: "ZodIssue list + 'a \<Rightarrow> ZodIssue list" where
  "issues_of r = (case r of Inl issues \<Rightarrow> issues | Inr _ \<Rightarrow> [])"

definition values_of :: "(ZodIssue list + 'a) list \<Rightarrow> 'a list" where
  "values_of rs = concat (map (\<lambda>r. case r of Inl _ \<Rightarrow> [] | Inr v \<Rightarrow> [v]) rs)"

text \<open>\<^verbatim>\<open>z.string().min(n)\<close>\<close>

definition z_string_min :: "nat \<Rightarrow> path_elem list \<Rightarrow> json option \<Rightarrow> ZodIssue list + jsstring" where
  "z_string_min n p v =
     (case v of
        Some (JString s) \<Rightarrow> if length s < n then Inl [ZodIssue too_small p] else Inr s
      | _ \<Rightarrow> Inl [ZodIssue invalid_type p])"

text \<open>\<^verbatim>\<open>z.string().optional()\<close>\<close>

definition z_string_optional :: "path_elem list \<Rightarrow> json option \<Rightarrow> ZodIssue list + jsstring option" where
  "z_string_optional p v =
     (case v of
        None \<Rightarrow> Inr None
      | Some (JString s) \<Rightarrow> Inr (Some s)
      | Some _ \<Rightarrow> Inl [ZodIssue invalid_type p])"

text \<open>
  \<^verbatim>\<open>z.number()\<close> and \<^verbatim>\<open>z.number().optional()\<close>: every number but NaN passes, the
  infinite ones too.
\<close>

definition z_number :: "path_elem list \<Rightarrow> json option \<Rightarrow> ZodIssue list + jsnumber" where
  "z_number p v =
     (case v of
        Some (JNumber x) \<Rightarrow> Inr x
      | _ \<Rightarrow> Inl [ZodIssue invalid_type p])"

definition z_number_optional :: "path_elem list \<Rightarrow> json option \<Rightarrow> ZodIssue list + jsnumber option" where
  "z_number_optional p v =
     (case v of
        None \<Rightarrow> Inr None
      | Some (JNumber x) \<Rightarrow> Inr (Some x)
      | Some _ \<Rightarrow> Inl [ZodIssue invalid_type p])"

text \<open>\<^verbatim>\<open>z.string().min(1, ...).default(d)\<close>: the default stands in for an absent value.\<close>

definition z_string_min_default ::
  "nat \<Rightarrow> jsstring \<Rightarrow> path_elem list \<Rightarrow> json option \<Rightarrow> ZodIssue list + jsstring"
where
  "z_string_min_default n d p v = (case v of None \<Rightarrow> Inr d | Some x \<Rightarrow> z_string_min n p (Some x))"

text \<open>
  \<^verbatim>\<open>z.record(z.any()).optional()\<close>: any object. The parsed record is a new object with
  the properties of the received one and their values as they are, but for a property
  named \<open>__proto__\<close>, which the library leaves out when it builds the object.
\<close>

definition z_record_any_optional ::
  "path_elem list \<Rightarrow> json option \<Rightarrow> ZodIssue list + (jsstring \<times> json) list option"
where
  "z_record_any_optional p v =
     (case v of
        None \<Rightarrow> Inr None
      | Some (JObject obj) \<Rightarrow> Inr (Some (filter (\<lambda>kv. fst kv \<noteq> js ''__proto__'') obj))
      | Some _ \<Rightarrow> Inl [ZodIssue invalid_type p])"

text \<open>
  \<^verbatim>\<open>
  customer: z.object({
    number: z.string().min(7, "customer.number is required"),
    name: z.string().optional(),
  })
  \<close>
  An object schema parses every field of its shape, gathers the issues of all of them,
  and returns the fields of the shape only.
\<close>

record Customer =
  customer_number :: jsstring
  customer_name :: "jsstring option"

definition z_customer :: "path_elem list \<Rightarrow> json option \<Rightarrow> ZodIssue list + Customer" where
  "z_customer p v =
     (case v of
        Some (JObject obj) \<Rightarrow>
          (let n = z_string_min 7 (p @ [Key (js ''number'')]) (get_prop obj (js ''number''));
               m = z_string_optional (p @ [Key (js ''name'')]) (get_prop obj (js ''name''))
           in case (n, m) of
                (Inr number, Inr name) \<Rightarrow> Inr \<lparr>customer_number = number, customer_name = name\<rparr>
              | _ \<Rightarrow> Inl (issues_of n @ issues_of m))
      | _ \<Rightarrow> Inl [ZodIssue invalid_type p])"

text \<open>
  \<^verbatim>\<open>
  const OutboundCallSchema = z.object({
    phoneNumberId: z.string().min(1, "phoneNumberId is required"),
    assistantId: z.string().min(1, "assistantId is required"),
    customer: z.object({ ... }),
  });
  \<close>
\<close>

record OutboundCall =
  call_phoneNumberId :: jsstring
  call_assistantId :: jsstring
  call_customer :: Customer

definition OutboundCallSchema_safeParse :: "json \<Rightarrow> ZodIssue list + OutboundCall" where
  "OutboundCallSchema_safeParse body =
     (case body of
        JObject obj \<Rightarrow>
          (let p = z_string_min 1 [Key (js ''phoneNumberId'')] (get_prop obj (js ''phoneNumberId''));
               a = z_string_min 1 [Key (js ''assistantId'')] (get_prop obj (js ''assistantId''));
               c = z_customer [Key (js ''customer'')] (get_prop obj (js ''customer''))
           in case (p, a, c) of
                (Inr phoneNumberId, Inr assistantId, Inr customer) \<Rightarrow>
                  Inr \<lparr>call_phoneNumberId = phoneNumberId, call_assistantId = assistantId,
                       call_customer = customer\<rparr>
              | _ \<Rightarrow> Inl (issues_of p @ issues_of a @ issues_of c))
      | _ \<Rightarrow> Inl [ZodIssue invalid_type []])"

text \<open>
  \<^verbatim>\<open>
  const OutboundCampaignSchema = z.object({
    phoneNumberId: z.string().min(1, "phoneNumberId is required"),
    assistantId: z.string().min(1, "assistantId is required"),
    name: z.string().min(1, "name is required").default("Web Campaign"),
    customer: z.object({ ... }),
  });
  \<close>
\<close>

record OutboundCampaign =
  campaign_phoneNumberId :: jsstring
  campaign_assistantId :: jsstring
  campaign_name :: jsstring
  campaign_customer :: Customer

definition OutboundCampaignSchema_safeParse :: "json \<Rightarrow> ZodIssue list + OutboundCampaign" where
  "OutboundCampaignSchema_safeParse body =
     (case body of
        JObject obj \<Rightarrow>
          (let p = z_string_min 1 [Key (js ''phoneNumberId'')] (get_prop obj (js ''phoneNumberId''));
               a = z_string_min 1 [Key (js ''assistantId'')] (get_prop obj (js ''assistantId''));
               n = z_string_min_default 1 (js ''Web Campaign'') [Key (js ''name'')]
                     (get_prop obj (js ''name''));
               c = z_customer [Key (js ''customer'')] (get_prop obj (js ''customer''))
           in case (p, a, n, c) of
                (Inr phoneNumberId, Inr assistantId, Inr name, Inr customer) \<Rightarrow>
                  Inr \<lparr>campaign_phoneNumberId = phoneNumberId, campaign_assistantId = assistantId,
                       campaign_name = name, campaign_customer = customer\<rparr>
              | _ \<Rightarrow> Inl (issues_of p @ issues_of a @ issues_of n @ issues_of c))
      | _ \<Rightarrow> Inl [ZodIssue invalid_type []])"

section \<open>The outbound call and campaign endpoints\<close>

text \<open>
  \<^verbatim>\<open>
  type VapiCallsCreateResponse =
    | { id: string }
    | { results?: Array<{ id: string }>; errors?: unknown[] };
  \<close>
  A result of the batch form is given by its \<open>id\<close>.
\<close>

datatype VapiCallsCreateResponse =
    CallWithId jsstring
  | CallBatch (results: "jsstring list option") (errors: "json list option")

text \<open>
  \<^verbatim>\<open>"id" in callResponse ? callResponse.id : callResponse.results?.[0]?.id\<close>
\<close>

definition callId_of :: "VapiCallsCreateResponse \<Rightarrow> jsstring option" where
  "callId_of callResponse =
     (case callResponse of
        CallWithId i \<Rightarrow> Some i
      | CallBatch rs _ \<Rightarrow> (case rs of None \<Rightarrow> None | Some [] \<Rightarrow> None | Some (i # _) \<Rightarrow> Some i))"

text \<open>The campaign the platform returns: its \<open>id\<close> and the rest of it.\<close>

datatype Campaign = Campaign (campaign_id: jsstring) (campaign_rest: json)

text \<open>The JSON bodies the handlers answer with.\<close>

datatype response_body =
    ErrorBody jsstring
  | ErrorDetails jsstring "ZodIssue list"
  | OkTrue
  | CallCreated "jsstring option" VapiCallsCreateResponse
  | CampaignCreated jsstring Campaign

record HttpResponse =
  status :: nat
  body :: response_body

text \<open>The arguments of \<open>vapi.calls.create\<close> and \<open>vapi.campaigns.campaignControllerCreate\<close>.\<close>

record CreateCallRequest =
  create_phoneNumberId :: jsstring
  create_assistantId :: jsstring
  create_customer :: Customer

record CreateCampaignRequest =
  create_campaign_name :: jsstring
  create_campaign_phoneNumberId :: jsstring
  create_campaign_assistantId :: jsstring
  create_campaign_customers :: "Customer list"

text \<open>
  \<open>!VAPI_API_KEY\<close> holds for an unset variable and for the empty string.
\<close>

definition unconfigured :: "jsstring option \<Rightarrow> bool" where
  "unconfigured k \<longleftrightarrow> k = None \<or> k = Some []"

text \<open>
  \<^verbatim>\<open>
  app.post("/api/vapi/outbound-call", async (req, res) => {
    try {
      if (!VAPI_API_KEY) return res.status(500).json({ error: "Server not configured for Vapi" });
      const parsed = OutboundCallSchema.safeParse(req.body);
      if (!parsed.success)
        return res.status(400).json({ error: "Invalid payload", details: parsed.error.flatten() });
      const { phoneNumberId, assistantId, customer } = parsed.data;
      const sanitizedNumber = normalizeToE164Like(customer.number);
      if (!sanitizedNumber) return res.status(400).json({ error: "Invalid customer number" });
      const callResponse = (await vapi.calls.create({ phoneNumberId, assistantId,
        customer: { ...customer, number: sanitizedNumber } })) as VapiCallsCreateResponse;
      const callId = "id" in callResponse ? callResponse.id : callResponse.results?.[0]?.id;
      return res.status(201).json({ id: callId, call: callResponse });
    } catch (error) {
      return res.status(502).json({ error: "Failed to create call" });
    }
  });
  \<close>
  \<open>create\<close> is the platform: \<open>None\<close> when the call throws, else the response.
\<close>

definition outbound_call ::
  "jsstring option \<Rightarrow> (CreateCallRequest \<Rightarrow> VapiCallsCreateResponse option) \<Rightarrow> json \<Rightarrow> HttpResponse"
where
  "outbound_call VAPI_API_KEY create req_body =
     (if unconfigured VAPI_API_KEY
      then \<lparr>status = 500, body = ErrorBody (js ''Server not configured for Vapi'')\<rparr>
      else case OutboundCallSchema_safeParse req_body of
        Inl issues \<Rightarrow> \<lparr>status = 400, body = ErrorDetails (js ''Invalid payload'') issues\<rparr>
      | Inr parsed \<Rightarrow>
          (case normalizeToE164Like_default (customer_number (call_customer parsed)) of
             None \<Rightarrow> \<lparr>status = 400, body = ErrorBody (js ''Invalid customer number'')\<rparr>
           | Some sanitizedNumber \<Rightarrow>
               if sanitizedNumber = []
               then \<lparr>status = 400, body = ErrorBody (js ''Invalid customer number'')\<rparr>
               else
                 (case create \<lparr>create_phoneNumberId = call_phoneNumberId parsed,
                               create_assistantId = call_assistantId parsed,
                               create_customer = (call_customer parsed)
                                 \<lparr>customer_number := sanitizedNumber\<rparr>\<rparr> of
                    None \<Rightarrow> \<lparr>status = 502, body = ErrorBody (js ''Failed to create call'')\<rparr>
                  | Some callResponse \<Rightarrow>
                      \<lparr>status = 201, body = CallCreated (callId_of callResponse) callResponse\<rparr>)))"

text \<open>
  \<^verbatim>\<open>
  app.post("/api/vapi/outbound-campaign", async (req, res) => {
    try {
      if (!VAPI_API_KEY) return res.status(500).json({ error: "Server not configured for Vapi" });
      const parsed = OutboundCampaignSchema.safeParse(req.body);
      if (!parsed.success)
        return res.status(400).json({ error: "Invalid payload", details: parsed.error.flatten() });
      const { phoneNumberId, assistantId, name, customer } = parsed.data;
      const sanitizedNumber = normalizeToE164Like(customer.number);
      if (!sanitizedNumber) return res.status(400).json({ error: "Invalid customer number" });
      const campaign = await vapi.campaigns.campaignControllerCreate({ name, phoneNumberId,
        assistantId, customers: [{ number: sanitizedNumber, name: customer.name }] });
      return res.status(201).json({ id: campaign.id, campaign });
    } catch (error) {
      return res.status(502).json({ error: "Failed to create campaign" });
    }
  });
  \<close>
\<close>

definition outbound_campaign ::
  "jsstring option \<Rightarrow> (CreateCampaignRequest \<Rightarrow> Campaign option) \<Rightarrow> json \<Rightarrow> HttpResponse"
where
  "outbound_campaign VAPI_API_KEY campaignControllerCreate req_body =
     (if unconfigured VAPI_API_KEY
      then \<lparr>status = 500, body = ErrorBody (js ''Server not configured for Vapi'')\<rparr>
      else case OutboundCampaignSchema_safeParse req_body of
        Inl issues \<Rightarrow> \<lparr>status = 400, body = ErrorDetails (js ''Invalid payload'') issues\<rparr>
      | Inr parsed \<Rightarrow>
          (case normalizeToE164Like_default (customer_number (campaign_customer parsed)) of
             None \<Rightarrow> \<lparr>status = 400, body = ErrorBody (js ''Invalid customer number'')\<rparr>
           | Some sanitizedNumber \<Rightarrow>
               if sanitizedNumber = []
               then \<lparr>status = 400, body = ErrorBody (js ''Invalid customer number'')\<rparr>
               else
                 (case campaignControllerCreate
                         \<lparr>create_campaign_name = campaign_name parsed,
                          create_campaign_phoneNumberId = campaign_phoneNumberId parsed,
                          create_campaign_assistantId = campaign_assistantId parsed,
                          create_campaign_customers =
                            [\<lparr>customer_number = sanitizedNumber,
                              customer_name = customer_name (campaign_customer parsed)\<rparr>]\<rparr> of
                    None \<Rightarrow> \<lparr>status = 502, body = ErrorBody (js ''Failed to create campaign'')\<rparr>
                  | Some campaign \<Rightarrow>
                      \<lparr>status = 201, body = CampaignCreated (campaign_id campaign) campaign\<rparr>)))"

section \<open>The transcript relay endpoint\<close>

text \<open>
  \<^verbatim>\<open>
  const TranscriptForwardSchema = z.object({
    callId: z.string().optional(),
    assistantId: z.string().optional(),
    startedAt: z.number().optional(),
    endedAt: z.number().optional(),
    transcript: z.array(z.object({
        role: z.string().min(1), text: z.string().min(1), timestamp: z.number() }))
      .min(1, "transcript must contain at least one message"),
    metadata: z.record(z.any()).optional(),
  });
  \<close>
\<close>

record TranscriptEntry =
  entry_role :: jsstring
  entry_text :: jsstring
  entry_timestamp :: jsnumber

record TranscriptForward =
  forward_callId :: "jsstring option"
  forward_assistantId :: "jsstring option"
  forward_startedAt :: "jsnumber option"
  forward_endedAt :: "jsnumber option"
  forward_transcript :: "TranscriptEntry list"
  forward_metadata :: "(jsstring \<times> json) list option"

definition z_entry :: "path_elem list \<Rightarrow> json \<Rightarrow> ZodIssue list + TranscriptEntry" where
  "z_entry p v =
     (case v of
        JObject obj \<Rightarrow>
          (let r = z_string_min 1 (p @ [Key (js ''role'')]) (get_prop obj (js ''role''));
               t = z_string_min 1 (p @ [Key (js ''text'')]) (get_prop obj (js ''text''));
               ts = z_number (p @ [Key (js ''timestamp'')]) (get_prop obj (js ''timestamp''))
           in case (r, t, ts) of
                (Inr role', Inr text'', Inr timestamp') \<Rightarrow>
                  Inr \<lparr>entry_role = role', entry_text = text'', entry_timestamp = timestamp'\<rparr>
              | _ \<Rightarrow> Inl (issues_of r @ issues_of t @ issues_of ts))
      | _ \<Rightarrow> Inl [ZodIssue invalid_type p])"

text \<open>
  An array schema reports a too short array and, besides, the issues of every element.
\<close>

definition z_transcript ::
  "path_elem list \<Rightarrow> json option \<Rightarrow> ZodIssue list + TranscriptEntry list"
where
  "z_transcript p v =
     (case v of
        Some (JArray xs) \<Rightarrow>
          (let rs = map (\<lambda>(i, x). z_entry (p @ [Index i]) x) (enumerate 0 xs);
               issues = (if length xs < 1 then [ZodIssue too_small p] else []) @
                        concat (map issues_of rs)
           in if issues = [] then Inr (values_of rs) else Inl issues)
      | _ \<Rightarrow> Inl [ZodIssue invalid_type p])"

definition TranscriptForwardSchema_safeParse :: "json \<Rightarrow> ZodIssue list + TranscriptForward" where
  "TranscriptForwardSchema_safeParse req_body =
     (case req_body of
        JObject obj \<Rightarrow>
          (let c = z_string_optional [Key (js ''callId'')] (get_prop obj (js ''callId''));
               a = z_string_optional [Key (js ''assistantId'')] (get_prop obj (js ''assistantId''));
               s = z_number_optional [Key (js ''startedAt'')] (get_prop obj (js ''startedAt''));
               e = z_number_optional [Key (js ''endedAt'')] (get_prop obj (js ''endedAt''));
               t = z_transcript [Key (js ''transcript'')] (get_prop obj (js ''transcript''));
               m = z_record_any_optional [Key (js ''metadata'')] (get_prop obj (js ''metadata''))
           in case (c, a, s, e, t, m) of
                (Inr callId, Inr assistantId, Inr startedAt', Inr endedAt', Inr transcript',
                 Inr metadata) \<Rightarrow>
                  Inr \<lparr>forward_callId = callId, forward_assistantId = assistantId,
                       forward_startedAt = startedAt', forward_endedAt = endedAt',
                       forward_transcript = transcript', forward_metadata = metadata\<rparr>
              | _ \<Rightarrow> Inl (issues_of c @ issues_of a @ issues_of s @ issues_of e @
                          issues_of t @ issues_of m))
      | _ \<Rightarrow> Inl [ZodIssue invalid_type []])"

text \<open>
  \<open>parsed.data\<close> as a value: the properties of the parsed object in the order of the
  schema, an absent optional property left out.
\<close>

definition optional_property :: "jsstring \<Rightarrow> ('a \<Rightarrow> json) \<Rightarrow> 'a option \<Rightarrow> (jsstring \<times> json) list" where
  "optional_property k f v = (case v of None \<Rightarrow> [] | Some x \<Rightarrow> [(k, f x)])"

definition entry_json :: "TranscriptEntry \<Rightarrow> json" where
  "entry_json e =
     JObject [(js ''role'', JString (entry_role e)), (js ''text'', JString (entry_text e)),
              (js ''timestamp'', JNumber (entry_timestamp e))]"

definition payload_json :: "TranscriptForward \<Rightarrow> json" where
  "payload_json payload =
     JObject
       (optional_property (js ''callId'') JString (forward_callId payload) @
        optional_property (js ''assistantId'') JString (forward_assistantId payload) @
        optional_property (js ''startedAt'') JNumber (forward_startedAt payload) @
        optional_property (js ''endedAt'') JNumber (forward_endedAt payload) @
        [(js ''transcript'', JArray (map entry_json (forward_transcript payload)))] @
        optional_property (js ''metadata'') JObject (forward_metadata payload))"

text \<open>
  \<open>JSON.stringify\<close>, as the JSON value its text denotes: an infinite number is written
  \<open>null\<close>, at any depth; everything else is written as it is.
\<close>

primrec JSON_stringify :: "json \<Rightarrow> json" where
  "JSON_stringify JNull = JNull"
| "JSON_stringify (JBool b) = JBool b"
| "JSON_stringify (JNumber n) = (case n of Finite x \<Rightarrow> JNumber (Finite x) | Infinite _ \<Rightarrow> JNull)"
| "JSON_stringify (JString t) = JString t"
| "JSON_stringify (JArray xs) = JArray (map JSON_stringify xs)"
| "JSON_stringify (JObject obj) = JObject (map (map_prod id JSON_stringify) obj)"

definition stringify_payload :: "TranscriptForward \<Rightarrow> json" where
  "stringify_payload payload = JSON_stringify (payload_json payload)"

text \<open>
  The outcome of \<open>fetch\<close> and of reading the response: the promise of \<open>fetch\<close> rejects, or
  there is a response with its \<open>ok\<close> flag and its text, \<open>None\<close> when \<open>response.text()\<close>
  rejects.
\<close>

datatype fetch_result = Rejected | Response (response_ok: bool) (response_text: "jsstring option")

record TranscriptsResult =
  response :: HttpResponse
  requests :: "(jsstring option \<times> json) list"

text \<open>
  \<^verbatim>\<open>
  app.post("/api/transcripts", async (req, res) => {
    try {
      const parsed = TranscriptForwardSchema.safeParse(req.body);
      if (!parsed.success)
        return res.status(400).json({ error: "Invalid payload", details: parsed.error.flatten() });
      const payload = parsed.data;
      if (payload.transcript.length > 2000)
        return res.status(413).json({ error: "Transcript too large" });
      const response = await fetch(N8N_WEBHOOK_URL, { method: "POST",
        headers: { "Content-Type": "application/json" }, body: JSON.stringify(payload) });
      const text = await response.text();
      if (!response.ok) return res.status(502).json({ error: "Failed to forward transcript" });
      return res.status(200).json({ ok: true });
    } catch (error) {
      return res.status(502).json({ error: "Failed to forward transcript" });
    }
  });
  \<close>
  \<open>fetch\<close> is the network, given the URL and the body. \<open>requests\<close> lists the calls of
  \<open>fetch\<close> the handler makes, each with its URL and body.
\<close>

definition transcripts ::
  "jsstring option \<Rightarrow> (jsstring option \<Rightarrow> json \<Rightarrow> fetch_result) \<Rightarrow> json \<Rightarrow> TranscriptsResult"
where
  "transcripts N8N_WEBHOOK_URL fetch req_body =
     (case TranscriptForwardSchema_safeParse req_body of
        Inl issues \<Rightarrow>
          \<lparr>response = \<lparr>status = 400, body = ErrorDetails (js ''Invalid payload'') issues\<rparr>,
           requests = []\<rparr>
      | Inr payload \<Rightarrow>
          if length (forward_transcript payload) > 2000
          then \<lparr>response = \<lparr>status = 413, body = ErrorBody (js ''Transcript too large'')\<rparr>,
                requests = []\<rparr>
          else
            \<lparr>response =
               (case fetch N8N_WEBHOOK_URL (stringify_payload payload) of
                  Rejected \<Rightarrow> \<lparr>status = 502, body = ErrorBody (js ''Failed to forward transcript'')\<rparr>
                | Response ok text \<Rightarrow>
                    (case text of
                       None \<Rightarrow> \<lparr>status = 502, body = ErrorBody (js ''Failed to forward transcript'')\<rparr>
                     | Some _ \<Rightarrow>
                         if \<not> ok
                         then \<lparr>status = 502, body = ErrorBody (js ''Failed to forward transcript'')\<rparr>
                         else \<lparr>status = 200, body = OkTrue\<rparr>)),
             requests = [(N8N_WEBHOOK_URL, stringify_payload payload)]\<rparr>)"

section \<open>The request bodies as the specification describes them\<close>

text \<open>
  The bodies the interface section of the specification accepts. For the transcript relay:
  an object whose \<open>callId\<close> and \<open>assistantId\<close>, when present, are strings, whose
  \<open>startedAt\<close> and \<open>endedAt\<close>, when present, are numbers, whose \<open>metadata\<close>, when
  present, is an object, and whose \<open>transcript\<close> is an array of at least one entry, each
  an object with a non-empty string \<open>role\<close>, a non-empty string \<open>text\<close> and a number
  \<open>timestamp\<close>. For the outbound call: an object with non-empty strings
  \<open>phoneNumberId\<close> and \<open>assistantId\<close> and an object \<open>customer\<close> whose \<open>number\<close> is a
  string of at least 7 characters and whose \<open>name\<close>, when present, is a string.
\<close>

definition is_string_min :: "nat \<Rightarrow> json option \<Rightarrow> bool" where
  "is_string_min n v = (case v of Some (JString s) \<Rightarrow> n \<le> length s | _ \<Rightarrow> False)"

definition is_number :: "json option \<Rightarrow> bool" where
  "is_number v = (case v of Some (JNumber _) \<Rightarrow> True | _ \<Rightarrow> False)"

definition is_object :: "json option \<Rightarrow> bool" where
  "is_object v = (case v of Some (JObject _) \<Rightarrow> True | _ \<Rightarrow> False)"

definition when_present :: "(json option \<Rightarrow> bool) \<Rightarrow> json option \<Rightarrow> bool" where
  "when_present P v = (case v of None \<Rightarrow> True | Some x \<Rightarrow> P (Some x))"

definition spec_valid_entry :: "json \<Rightarrow> bool" where
  "spec_valid_entry v =
     (case v of
        JObject obj \<Rightarrow>
          is_string_min 1 (get_prop obj (js ''role'')) \<and>
          is_string_min 1 (get_prop obj (js ''text'')) \<and>
          is_number (get_prop obj (js ''timestamp''))
      | _ \<Rightarrow> False)"

definition spec_valid_transcripts_body :: "json \<Rightarrow> bool" where
  "spec_valid_transcripts_body req_body =
     (case req_body of
        JObject obj \<Rightarrow>
          when_present (is_string_min 0) (get_prop obj (js ''callId'')) \<and>
          when_present (is_string_min 0) (get_prop obj (js ''assistantId'')) \<and>
          when_present is_number (get_prop obj (js ''startedAt'')) \<and>
          when_present is_number (get_prop obj (js ''endedAt'')) \<and>
          (case get_prop obj (js ''transcript'') of
             Some (JArray xs) \<Rightarrow> 1 \<le> length xs \<and> list_all spec_valid_entry xs
           | _ \<Rightarrow> False) \<and>
          when_present is_object (get_prop obj (js ''metadata''))
      | _ \<Rightarrow> False)"

definition spec_valid_customer :: "json option \<Rightarrow> bool" where
  "spec_valid_customer v =
     (case v of
        Some (JObject obj) \<Rightarrow>
          is_string_min 7 (get_prop obj (js ''number'')) \<and>
          when_present (is_string_min 0) (get_prop obj (js ''name''))
      | _ \<Rightarrow> False)"

definition spec_valid_call_body :: "json \<Rightarrow> bool" where
  "spec_valid_call_body req_body =
     (case req_body of
        JObject obj \<Rightarrow>
          is_string_min 1 (get_prop obj (js ''phoneNumberId'')) \<and>
          is_string_min 1 (get_prop obj (js ''assistantId'')) \<and>
          spec_valid_customer (get_prop obj (js ''customer''))
      | _ \<Rightarrow> False)"

text \<open>The transcript entries of a request body, for the bodies that have them.\<close>

definition body_transcript :: "json \<Rightarrow> json list" where
  "body_transcript req_body =
     (case req_body of
        JObject obj \<Rightarrow> (case get_prop obj (js ''transcript'') of Some (JArray xs) \<Rightarrow> xs | _ \<Rightarrow> [])
      | _ \<Rightarrow> [])"


text \<open>
  The restriction of a request body to the fields the schema names: of the top-level
  properties those called \<open>callId\<close>, \<open>assistantId\<close>, \<open>startedAt\<close>, \<open>endedAt\<close>,
  \<open>transcript\<close> and \<open>metadata\<close>, in this order, and of the properties of each transcript
  entry those called \<open>role\<close>, \<open>text\<close> and \<open>timestamp\<close>. \<open>named_fields\<close> keeps the
  received values as they are. \<open>schema_restriction\<close> is what comes out when, besides, the
  property \<open>__proto__\<close> of \<open>metadata\<close> is left out and every infinite number is written
  \<open>null\<close>.
\<close>

definition restrict_props :: "jsstring list \<Rightarrow> (jsstring \<times> json) list \<Rightarrow> (jsstring \<times> json) list" where
  "restrict_props ks obj =
     concat (map (\<lambda>k. case get_prop obj k of None \<Rightarrow> [] | Some v \<Rightarrow> [(k, v)]) ks)"

definition strip_entry :: "json \<Rightarrow> json" where
  "strip_entry v =
     (case v of
        JObject obj \<Rightarrow> JObject (restrict_props [js ''role'', js ''text'', js ''timestamp''] obj)
      | _ \<Rightarrow> v)"

definition drop_proto :: "json \<Rightarrow> json" where
  "drop_proto v =
     (case v of
        JObject obj \<Rightarrow> JObject (filter (\<lambda>kv. fst kv \<noteq> js ''__proto__'') obj)
      | _ \<Rightarrow> v)"

definition named_fields :: "json \<Rightarrow> json" where
  "named_fields req_body =
     (case req_body of
        JObject obj \<Rightarrow>
          JObject
            (restrict_props [js ''callId'', js ''assistantId'', js ''startedAt'', js ''endedAt''] obj @
             [(js ''transcript'', JArray (map strip_entry (body_transcript req_body)))] @
             restrict_props [js ''metadata''] obj)
      | _ \<Rightarrow> req_body)"

definition schema_restriction :: "json \<Rightarrow> json" where
  "schema_restriction req_body =
     (case req_body of
        JObject obj \<Rightarrow>
          JSON_stringify (JObject
            (restrict_props [js ''callId'', js ''assistantId'', js ''startedAt'', js ''endedAt''] obj @
             [(js ''transcript'', JArray (map strip_entry (body_transcript req_body)))] @
             map (map_prod id drop_proto) (restrict_props [js ''metadata''] obj)))
      | _ \<Rightarrow> req_body)"

text \<open>
  A value without an infinite number, at any depth, and a request body whose \<open>metadata\<close>
  has no property \<open>__proto__\<close>.
\<close>

primrec all_finite :: "json \<Rightarrow> bool" where
  "all_finite JNull = True"
| "all_finite (JBool b) = True"
| "all_finite (JNumber n) = (case n of Finite _ \<Rightarrow> True | Infinite _ \<Rightarrow> False)"
| "all_finite (JString t) = True"
| "all_finite (JArray xs) = list_all id (map all_finite xs)"
| "all_finite (JObject obj) = list_all id (map snd (map (map_prod id all_finite) obj))"

definition metadata_has_proto :: "json \<Rightarrow> bool" where
  "metadata_has_proto req_body =
     (case req_body of
        JObject obj \<Rightarrow>
          (case get_prop obj (js ''metadata'') of
             Some (JObject m) \<Rightarrow> js ''__proto__'' \<in> set (map fst m)
           | _ \<Rightarrow> False)
      | _ \<Rightarrow> False)"

section \<open>Properties of the string helpers\<close>

lemma isDigit_not_isWhiteSpace: "isDigit c \<Longrightarrow> \<not> isWhiteSpace c"
  by (auto simp: isDigit_def isWhiteSpace_def)

lemma filter_dropWhile_disjoint:
  assumes "\<And>c. P c \<Longrightarrow> \<not> Q c"
  shows "filter P (dropWhile Q s) = filter P s"
  using assms by (induction s) auto

lemma filter_isDigit_trim: "filter isDigit (trim s) = filter isDigit s"
proof -
  have step: "filter isDigit (dropWhile isWhiteSpace t) = filter isDigit t" for t
    by (rule filter_dropWhile_disjoint) (rule isDigit_not_isWhiteSpace)
  have "filter isDigit (trim s) = rev (filter isDigit (dropWhile isWhiteSpace (rev (dropWhile isWhiteSpace s))))"
    by (simp add: trim_def rev_filter)
  also have "\<dots> = rev (filter isDigit (rev (dropWhile isWhiteSpace s)))"
    by (simp only: step)
  also have "\<dots> = filter isDigit (dropWhile isWhiteSpace s)"
    by (simp add: rev_filter)
  finally show ?thesis by (simp only: step)
qed

lemma trim_Nil_no_digits: "trim s = [] \<Longrightarrow> filter isDigit s = []"
  using filter_isDigit_trim [of s] by simp

lemma startsWith_single: "startsWith s [c] \<longleftrightarrow> s \<noteq> [] \<and> hd s = c"
  by (cases s) (auto simp: startsWith_def)

section \<open>Phone normalisation: the rule of the specification\<close>

text \<open>
  C3. For every input string \<open>normalizeToE164Like\<close>, with the default country code \<open>"1"\<close>,
  computes the rule of the specification: on a trimmed input that begins with \<open>+\<close> the
  result is \<open>+\<close> and the digits of the input, or null when there is no digit; otherwise
  11 digits beginning with \<open>1\<close> give \<open>+\<close> and the digits, 10 digits give \<open>+1\<close> and the
  digits, 7 to 15 digits give \<open>+\<close> and the digits, and anything else, the empty string
  included, is null. The five examples of the specification come out as it says.
\<close>

theorem normalizeToE164Like_spec:
  "normalizeToE164Like_default input = spec_phone_rule input
   \<and> normalizeToE164Like_default (js ''5551234567'') = Some (js ''+15551234567'')
   \<and> normalizeToE164Like_default (js ''15551234567'') = Some (js ''+15551234567'')
   \<and> normalizeToE164Like_default (js ''+44 20 7946 0958'') = Some (js ''+442079460958'')
   \<and> normalizeToE164Like_default (js ''123'') = None
   \<and> normalizeToE164Like_default (js '''') = None"
proof -
  have general: "normalizeToE164Like_default input = spec_phone_rule input"
  proof (cases "trim input = []")
    case True
    then have "filter isDigit input = []" by (rule trim_Nil_no_digits)
    with True show ?thesis
      by (simp add: normalizeToE164Like_default_def normalizeToE164Like_def
          spec_phone_rule_def startsWith_def js_def)
  next
    case False
    have plus: "js ''+'' = [43]" and one: "js ''1'' = [49]" by (simp_all add: js_def)
    show ?thesis
      using False
      by (auto simp: normalizeToE164Like_default_def normalizeToE164Like_def
          spec_phone_rule_def Let_def filter_isDigit_trim plus one startsWith_single)
  qed
  have e1: "normalizeToE164Like_default (js ''5551234567'') = Some (js ''+15551234567'')"
    by (simp add: normalizeToE164Like_default_def normalizeToE164Like_def Let_def trim_def
        startsWith_def js_def isWhiteSpace_def isDigit_def)
  have e2: "normalizeToE164Like_default (js ''15551234567'') = Some (js ''+15551234567'')"
    by (simp add: normalizeToE164Like_default_def normalizeToE164Like_def Let_def trim_def
        startsWith_def js_def isWhiteSpace_def isDigit_def)
  have e3: "normalizeToE164Like_default (js ''+44 20 7946 0958'') = Some (js ''+442079460958'')"
    by (simp add: normalizeToE164Like_default_def normalizeToE164Like_def Let_def trim_def
        startsWith_def js_def isWhiteSpace_def isDigit_def)
  have e4: "normalizeToE164Like_default (js ''123'') = None"
    by (simp add: normalizeToE164Like_default_def normalizeToE164Like_def Let_def trim_def
        startsWith_def js_def isWhiteSpace_def isDigit_def)
  have e5: "normalizeToE164Like_default (js '''') = None"
    by (simp add: normalizeToE164Like_default_def normalizeToE164Like_def Let_def trim_def
        startsWith_def js_def)
  from general e1 e2 e3 e4 e5 show ?thesis by blast
qed

section \<open>Deduplication\<close>

lemma set_trim_subset: "set (trim s) \<subseteq> set s"
proof
  fix c
  assume "c \<in> set (trim s)"
  then have "c \<in> set (rev (dropWhile isWhiteSpace s))"
    by (auto simp: trim_def dest: set_dropWhileD)
  then show "c \<in> set s"
    by (auto dest: set_dropWhileD)
qed

lemma bar_notin_normalizedText: "124 \<notin> set (normalizedText m)"
proof
  assume "124 \<in> set (normalizedText m)"
  then have "124 \<in> set (replace_not_az09s (toLowerCase (text' m)))"
    using set_trim_subset by (auto simp: normalizedText_def)
  then show False
    by (simp add: replace_not_az09s_def isLowerAZ_def isDigit_def isWhiteSpace_def)
qed

lemma sep_split_unique:
  assumes "a @ c # x = b @ c # y" and "c \<notin> set x" and "c \<notin> set y"
  shows "a = b \<and> x = y"
  using assms
  by (auto simp: append_eq_append_conv2 Cons_eq_append_conv append_eq_Cons_conv)

lemma key_eq_iff:
  "key m = key m' \<longleftrightarrow> role m = role m' \<and> normalizedText m = normalizedText m'"
proof
  assume "key m = key m'"
  then have "role m @ 124 # normalizedText m = role m' @ 124 # normalizedText m'"
    by (simp add: key_def js_def)
  then show "role m = role m' \<and> normalizedText m = normalizedText m'"
    by (rule sep_split_unique) (rule bar_notin_normalizedText)+
next
  assume "role m = role m' \<and> normalizedText m = normalizedText m'"
  then show "key m = key m'" by (simp add: key_def)
qed

lemma toLowerCase_no_upper: "c \<in> set (toLowerCase s) \<Longrightarrow> \<not> isUpperAZ c"
  by (auto simp: toLowerCase_def lowerUnit_def isUpperAZ_def split: if_splits)

lemma normalizedText_spec: "normalizedText m = spec_normalize (text' m)"
proof -
  have "filter (\<lambda>c. isLowerAZ c \<or> isDigit c \<or> isWhiteSpace c) (toLowerCase t) =
        filter (\<lambda>c. isLowerAZ c \<or> isUpperAZ c \<or> isDigit c \<or> isWhiteSpace c) (toLowerCase t)" for t
    by (rule filter_cong) (auto dest: toLowerCase_no_upper)
  then show ?thesis
    by (simp add: normalizedText_def spec_normalize_def replace_not_az09s_def)
qed

lemma key_eq_spec_key: "key m = key m' \<longleftrightarrow> spec_key m = spec_key m'"
  by (simp add: key_eq_iff spec_key_def normalizedText_spec)

lemma dedup_loop_firsts: "dedup_loop ms seen uniq = uniq @ firsts key seen ms"
  by (induction ms arbitrary: seen uniq) simp_all

lemma deduplicateTranscript_firsts: "deduplicateTranscript ms = firsts key {} ms"
  by (simp add: deduplicateTranscript_def dedup_loop_firsts)

lemma firsts_snoc:
  "firsts k S (xs @ [x]) = firsts k S xs @ (if k x \<in> S \<union> k ` set xs then [] else [x])"
  by (induction xs arbitrary: S) auto

lemma firsts_idem: "firsts k S (firsts k S xs) = firsts k S xs"
  by (induction xs arbitrary: S) simp_all

lemma firsts_same_classes:
  assumes "\<And>x y. k x = k y \<longleftrightarrow> k' x = k' y"
  shows "firsts k (k ` A) xs = firsts k' (k' ` A) xs"
proof (induction xs arbitrary: A)
  case Nil
  show ?case by simp
next
  case (Cons x xs)
  have mem: "k x \<in> k ` A \<longleftrightarrow> k' x \<in> k' ` A"
    using assms by (auto simp: image_iff)
  have "firsts k (insert (k x) (k ` A)) xs = firsts k' (insert (k' x) (k' ` A)) xs"
    using Cons.IH [of "insert x A"] by simp
  with mem Cons.IH [of A] show ?case by simp
qed

lemma spec_dedup_snoc:
  "spec_dedup (xs @ [x]) =
     spec_dedup xs @ (if spec_key x \<in> spec_key ` set xs then [] else [x])"
proof -
  let ?n = "length xs"
  let ?P = "\<lambda>ms i. \<forall>j<i. spec_key (ms ! j) \<noteq> spec_key (ms ! i)"
  have old: "?P (xs @ [x]) i \<longleftrightarrow> ?P xs i" if "i < ?n" for i
    using that by (simp add: nth_append)
  have keep: "filter (?P (xs @ [x])) [0..<?n] = filter (?P xs) [0..<?n]"
    by (rule filter_cong) (simp_all add: old)
  have same: "map (\<lambda>i. (xs @ [x]) ! i) (filter (?P xs) [0..<?n]) =
              map (\<lambda>i. xs ! i) (filter (?P xs) [0..<?n])"
    by (rule map_cong) (auto simp: nth_append)
  have "?P (xs @ [x]) ?n \<longleftrightarrow> (\<forall>j<?n. spec_key (xs ! j) \<noteq> spec_key x)"
    by (simp add: nth_append)
  also have "\<dots> \<longleftrightarrow> (\<forall>m\<in>set xs. spec_key m \<noteq> spec_key x)"
    by (simp add: all_set_conv_all_nth)
  also have "\<dots> \<longleftrightarrow> spec_key x \<notin> spec_key ` set xs"
    by (metis imageE imageI)
  finally have new: "?P (xs @ [x]) ?n \<longleftrightarrow> spec_key x \<notin> spec_key ` set xs" .
  from new have new':
    "(\<forall>j<?n. spec_key ((xs @ [x]) ! j) \<noteq> spec_key x) \<longleftrightarrow> spec_key x \<notin> spec_key ` set xs"
    by simp
  show ?thesis
    unfolding spec_dedup_def
    by (simp only: length_append_singleton upt_Suc_append [OF le0] filter_append map_append
        keep same) (simp add: new')
qed

lemma firsts_spec_key: "firsts spec_key {} ms = spec_dedup ms"
proof (induction ms rule: rev_induct)
  case Nil
  show ?case by (simp add: spec_dedup_def)
next
  case (snoc x xs)
  then show ?case by (simp add: firsts_snoc spec_dedup_snoc)
qed

lemma deduplicateTranscript_spec_dedup: "deduplicateTranscript ms = spec_dedup ms"
proof -
  have "firsts key (key ` {}) ms = firsts spec_key (spec_key ` {}) ms"
    by (rule firsts_same_classes) (rule key_eq_spec_key)
  then show ?thesis
    by (simp add: deduplicateTranscript_firsts firsts_spec_key)
qed

text \<open>
  C2. The deduplication pass is a stable, order-preserving, first-occurrence-wins filter:
  for every list its result consists, in the original order and unmodified, of exactly the
  messages whose key (role, normalised text) does not occur earlier in the list, the
  normalised text being the text lower-cased, without the characters that are no ASCII
  letter, digit or white space, and trimmed. The list user "Hi!", assistant "Hello",
  user "hi" gives user "Hi!", assistant "Hello", and the empty list gives the empty list.
\<close>

theorem deduplicateTranscript_first_occurrence:
  "deduplicateTranscript ms = spec_dedup ms
   \<and> deduplicateTranscript
       [\<lparr>role = js ''user'', text' = js ''Hi!'', timestamp = t1\<rparr>,
        \<lparr>role = js ''assistant'', text' = js ''Hello'', timestamp = t2\<rparr>,
        \<lparr>role = js ''user'', text' = js ''hi'', timestamp = t3\<rparr>]
     = [\<lparr>role = js ''user'', text' = js ''Hi!'', timestamp = t1\<rparr>,
        \<lparr>role = js ''assistant'', text' = js ''Hello'', timestamp = t2\<rparr>]
   \<and> deduplicateTranscript [] = []"
proof (intro conjI)
  show "deduplicateTranscript ms = spec_dedup ms"
    by (rule deduplicateTranscript_spec_dedup)
  show "deduplicateTranscript
       [\<lparr>role = js ''user'', text' = js ''Hi!'', timestamp = t1\<rparr>,
        \<lparr>role = js ''assistant'', text' = js ''Hello'', timestamp = t2\<rparr>,
        \<lparr>role = js ''user'', text' = js ''hi'', timestamp = t3\<rparr>]
     = [\<lparr>role = js ''user'', text' = js ''Hi!'', timestamp = t1\<rparr>,
        \<lparr>role = js ''assistant'', text' = js ''Hello'', timestamp = t2\<rparr>]"
    by (simp add: deduplicateTranscript_def key_def normalizedText_def replace_not_az09s_def
        toLowerCase_def lowerUnit_def trim_def js_def
        isWhiteSpace_def isDigit_def isLowerAZ_def isUpperAZ_def)
  show "deduplicateTranscript [] = []"
    by (simp add: deduplicateTranscript_def)
qed

theorem deduplicateTranscript_first_occurrence_witness:
  "spec_dedup
       [\<lparr>role = js ''user'', text' = js ''Hi!'', timestamp = 1000\<rparr>,
        \<lparr>role = js ''assistant'', text' = js ''Hello'', timestamp = 2000\<rparr>,
        \<lparr>role = js ''user'', text' = js ''hi'', timestamp = 9000\<rparr>]
     = [\<lparr>role = js ''user'', text' = js ''Hi!'', timestamp = 1000\<rparr>,
        \<lparr>role = js ''assistant'', text' = js ''Hello'', timestamp = 2000\<rparr>]"
proof -
  let ?l = "[\<lparr>role = js ''user'', text' = js ''Hi!'', timestamp = 1000\<rparr>,
        \<lparr>role = js ''assistant'', text' = js ''Hello'', timestamp = 2000\<rparr>,
        \<lparr>role = js ''user'', text' = js ''hi'', timestamp = 9000\<rparr>]"
  from deduplicateTranscript_first_occurrence [of ?l 1000 2000 9000]
  have "deduplicateTranscript ?l = spec_dedup ?l"
    and "deduplicateTranscript ?l =
      [\<lparr>role = js ''user'', text' = js ''Hi!'', timestamp = 1000\<rparr>,
        \<lparr>role = js ''assistant'', text' = js ''Hello'', timestamp = 2000\<rparr>]"
    by blast+
  then show ?thesis by simp
qed

text \<open>
  C8. Deduplication is idempotent: running it on its own result gives that result.
\<close>

theorem deduplicateTranscript_idempotent:
  "deduplicateTranscript (deduplicateTranscript l) = deduplicateTranscript l"
  by (simp add: deduplicateTranscript_firsts firsts_idem)

section \<open>The message handler\<close>

lemma trim_Nil_iff: "trim t = [] \<longleftrightarrow> (\<forall>c\<in>set t. isWhiteSpace c)"
proof
  assume empty: "trim t = []"
  show "\<forall>c\<in>set t. isWhiteSpace c"
  proof (rule ccontr)
    assume "\<not> (\<forall>c\<in>set t. isWhiteSpace c)"
    then have rest: "dropWhile isWhiteSpace t \<noteq> []"
      by (simp add: dropWhile_eq_Nil_conv)
    then have "\<not> isWhiteSpace (hd (dropWhile isWhiteSpace t))"
      by (rule hd_dropWhile)
    moreover have "hd (dropWhile isWhiteSpace t) \<in> set (rev (dropWhile isWhiteSpace t))"
      using rest by simp
    ultimately have "dropWhile isWhiteSpace (rev (dropWhile isWhiteSpace t)) \<noteq> []"
      by (auto simp: dropWhile_eq_Nil_conv)
    with empty show False by (simp add: trim_def)
  qed
next
  assume "\<forall>c\<in>set t. isWhiteSpace c"
  then have "dropWhile isWhiteSpace t = []" by (simp add: dropWhile_eq_Nil_conv)
  then show "trim t = []" unfolding trim_def by (simp only: rev.simps dropWhile.simps)
qed

text \<open>
  C9. A transcript-fragment event whose text is empty after trimming, that is, whose text
  is empty, absent or made of white space only, is a no-op of the handler: the transcript
  and every other part of the session state stay as they are.
\<close>

theorem on_message_blank_noop:
  "(fragment_text message = [] \<longleftrightarrow> (\<forall>c\<in>set (fragment_raw message). isWhiteSpace c))
   \<and> (fragment_text message = [] \<longrightarrow>
        on_message message now s = s \<and> handle assistantId (Message message now) s = s)"
  by (simp add: fragment_text_def trim_Nil_iff on_message_def)

theorem on_message_blank_noop_witness:
  "fragment_text (VapiMessage (js ''transcript'') (Some (js ''user'')) (Some [32, 9, 32])) = []
   \<and> on_message (VapiMessage (js ''transcript'') (Some (js ''user'')) (Some [32, 9, 32])) 5000
        ((initial_state True)\<lparr>transcript := [\<lparr>role = js ''user'', text' = js ''hi'', timestamp = 4000\<rparr>]\<rparr>)
      = (initial_state True)\<lparr>transcript := [\<lparr>role = js ''user'', text' = js ''hi'', timestamp = 4000\<rparr>]\<rparr>"
proof -
  let ?m = "VapiMessage (js ''transcript'') (Some (js ''user'')) (Some [32, 9, 32])"
  have blank: "fragment_text ?m = []"
    by (simp add: fragment_text_def fragment_raw_def trim_def isWhiteSpace_def)
  with on_message_blank_noop [of ?m 5000
      "(initial_state True)\<lparr>transcript := [\<lparr>role = js ''user'', text' = js ''hi'', timestamp = 4000\<rparr>]\<rparr>"]
  show ?thesis by blast
qed









section \<open>Speaking and listening\<close>

lemma step_exclusive:
  assumes "exclusive s" and "ev \<noteq> StartCallSettled True"
  shows "exclusive (step assistantId s ev)"
proof (cases ev)
  case (StartCallSettled started)
  with assms show ?thesis
    by (simp add: step_def sync_transcriptRef_def startCall_settled_def exclusive_def)
next
  case (Message message now)
  with assms show ?thesis
    by (simp add: step_def sync_transcriptRef_def on_message_def exclusive_def Let_def)
qed (use assms in \<open>simp_all add: step_def sync_transcriptRef_def exclusive_def on_call_start_def
    on_call_end_def on_call_ended_timeout_def on_speech_start_def on_speech_end_def
    on_error_def startCall_def endCall_def Let_def\<close>)

text \<open>
  C7. Speech-start sets speaking and clears listening, speech-end clears speaking and sets
  listening, and call-end clears both, as the claim says. The flags are not exclusive in
  every reachable state, though: \<open>startCall\<close> sets \<open>isListening\<close> once \<open>vapi.start\<close> has
  resolved and leaves \<open>isSpeaking\<close> as it is. From the initial state, a click on the call
  button, then a call-start and a speech-start event while \<open>vapi.start\<close> is pending, then
  the promise resolving, end with both flags true.
\<close>

theorem startCall_leaves_speaking_set:
  "isSpeaking (run (js ''assistant-1'') (initial_state True)
      [StartCall, CallStart 1000, SpeechStart, StartCallSettled True])
   \<and> isListening (run (js ''assistant-1'') (initial_state True)
      [StartCall, CallStart 1000, SpeechStart, StartCallSettled True])
   \<and> isSpeaking (on_speech_start s) \<and> \<not> isListening (on_speech_start s)
   \<and> \<not> isSpeaking (on_speech_end s) \<and> isListening (on_speech_end s)
   \<and> \<not> isSpeaking (on_call_end assistantId now s) \<and> \<not> isListening (on_call_end assistantId now s)"
  by (simp add: run_def step_def sync_transcriptRef_def on_speech_start_def on_speech_end_def
      on_call_start_def on_call_end_def startCall_def startCall_settled_def initial_state_def
      Let_def)

section \<open>Schema validation\<close>

lemma z_string_min_isl: "isl (z_string_min n p v) \<longleftrightarrow> \<not> is_string_min n v"
  by (simp add: z_string_min_def is_string_min_def split: option.splits json.splits)

lemma z_string_optional_isl:
  "isl (z_string_optional p v) \<longleftrightarrow> \<not> when_present (is_string_min 0) v"
  by (simp add: z_string_optional_def when_present_def is_string_min_def
      split: option.splits json.splits)

lemma z_number_isl: "isl (z_number p v) \<longleftrightarrow> \<not> is_number v"
  by (simp add: z_number_def is_number_def split: option.splits json.splits)

lemma z_number_optional_isl: "isl (z_number_optional p v) \<longleftrightarrow> \<not> when_present is_number v"
  by (simp add: z_number_optional_def when_present_def is_number_def
      split: option.splits json.splits)

lemma z_record_any_optional_isl:
  "isl (z_record_any_optional p v) \<longleftrightarrow> \<not> when_present is_object v"
  by (simp add: z_record_any_optional_def when_present_def is_object_def
      split: option.splits json.splits)

lemma z_string_min_issues: "issues_of (z_string_min n p v) = [] \<longleftrightarrow> \<not> isl (z_string_min n p v)"
  by (simp add: z_string_min_def issues_of_def split: option.splits json.splits)

lemma z_string_optional_issues:
  "issues_of (z_string_optional p v) = [] \<longleftrightarrow> \<not> isl (z_string_optional p v)"
  by (simp add: z_string_optional_def issues_of_def split: option.splits json.splits)

lemma z_number_issues: "issues_of (z_number p v) = [] \<longleftrightarrow> \<not> isl (z_number p v)"
  by (simp add: z_number_def issues_of_def split: option.splits json.splits)

lemma z_number_optional_issues:
  "issues_of (z_number_optional p v) = [] \<longleftrightarrow> \<not> isl (z_number_optional p v)"
  by (simp add: z_number_optional_def issues_of_def split: option.splits json.splits)

lemma z_record_any_optional_issues:
  "issues_of (z_record_any_optional p v) = [] \<longleftrightarrow> \<not> isl (z_record_any_optional p v)"
  by (simp add: z_record_any_optional_def issues_of_def split: option.splits json.splits)

lemma issues_of_Inr: "issues_of (Inr x) = []"
  by (simp add: issues_of_def)

lemma issues_of_Inl: "issues_of (Inl is) = is"
  by (simp add: issues_of_def)








section \<open>The outbound call endpoint\<close>



text \<open>
  C10. With the credential unconfigured both endpoints answer 500 to every request body,
  whatever the body and whatever the platform would do: the check of the credential comes
  first, so no 400 is reachable.
\<close>

theorem unconfigured_always_500:
  "unconfigured k \<Longrightarrow>
     status (outbound_call k create b) = 500 \<and>
     status (outbound_campaign k campaignControllerCreate b) = 500 \<and>
     status (outbound_call k create b) \<noteq> 400 \<and>
     status (outbound_campaign k campaignControllerCreate b) \<noteq> 400"
  by (simp add: outbound_call_def outbound_campaign_def)

theorem unconfigured_always_500_witness:
  "unconfigured None
   \<and> \<not> spec_valid_call_body JNull
   \<and> status (outbound_call None (\<lambda>_. Some (CallWithId (js ''call-1''))) JNull) = 500
   \<and> status (outbound_campaign None (\<lambda>_. None) JNull) = 500
   \<and> status (outbound_call None (\<lambda>_. Some (CallWithId (js ''call-1''))) JNull) \<noteq> 400
   \<and> status (outbound_campaign None (\<lambda>_. None) JNull) \<noteq> 400"
proof -
  have u: "unconfigured None" by (simp add: unconfigured_def)
  have v: "\<not> spec_valid_call_body JNull" by (simp add: spec_valid_call_body_def)
  from unconfigured_always_500 [OF u, of "\<lambda>_. Some (CallWithId (js ''call-1''))" JNull "\<lambda>_. None"] u v
  show ?thesis by blast
qed

section \<open>The transcript schema\<close>

lemma z_entry_isl: "isl (z_entry p v) \<longleftrightarrow> \<not> spec_valid_entry v"
proof (cases v)
  case (JObject obj)
  let ?r = "z_string_min 1 (p @ [Key (js ''role'')]) (get_prop obj (js ''role''))"
  let ?t = "z_string_min 1 (p @ [Key (js ''text'')]) (get_prop obj (js ''text''))"
  let ?ts = "z_number (p @ [Key (js ''timestamp'')]) (get_prop obj (js ''timestamp''))"
  have "isl (z_entry p v) \<longleftrightarrow> isl ?r \<or> isl ?t \<or> isl ?ts"
    unfolding JObject z_entry_def by (cases ?r; cases ?t; cases ?ts) (simp_all add: Let_def)
  then show ?thesis
    by (simp add: JObject spec_valid_entry_def z_string_min_isl z_number_isl)
qed (simp_all add: z_entry_def spec_valid_entry_def)

lemma z_entry_issues: "issues_of (z_entry p v) = [] \<longleftrightarrow> \<not> isl (z_entry p v)"
proof (cases v)
  case (JObject obj)
  let ?r = "z_string_min 1 (p @ [Key (js ''role'')]) (get_prop obj (js ''role''))"
  let ?t = "z_string_min 1 (p @ [Key (js ''text'')]) (get_prop obj (js ''text''))"
  let ?ts = "z_number (p @ [Key (js ''timestamp'')]) (get_prop obj (js ''timestamp''))"
  show ?thesis
    unfolding JObject z_entry_def
    using z_string_min_issues [of 1 "p @ [Key (js ''role'')]" "get_prop obj (js ''role'')"]
      z_string_min_issues [of 1 "p @ [Key (js ''text'')]" "get_prop obj (js ''text'')"]
      z_number_issues [of "p @ [Key (js ''timestamp'')]" "get_prop obj (js ''timestamp'')"]
    by (cases ?r; cases ?t; cases ?ts) (simp_all add: Let_def issues_of_def)
qed (simp_all add: z_entry_def issues_of_def)

lemma z_string_min_Inr: "z_string_min n p v = Inr s \<Longrightarrow> v = Some (JString s)"
  by (auto simp: z_string_min_def split: option.splits json.splits if_splits)

lemma z_number_Inr: "z_number p v = Inr x \<Longrightarrow> v = Some (JNumber x)"
  by (auto simp: z_number_def split: option.splits json.splits)

lemma z_entry_json:
  assumes "z_entry p v = Inr e"
  shows "entry_json e = strip_entry v"
proof (cases v)
  case (JObject obj)
  let ?r = "z_string_min 1 (p @ [Key (js ''role'')]) (get_prop obj (js ''role''))"
  let ?t = "z_string_min 1 (p @ [Key (js ''text'')]) (get_prop obj (js ''text''))"
  let ?ts = "z_number (p @ [Key (js ''timestamp'')]) (get_prop obj (js ''timestamp''))"
  from assms have "?r = Inr (entry_role e) \<and> ?t = Inr (entry_text e) \<and> ?ts = Inr (entry_timestamp e)"
    unfolding JObject z_entry_def by (cases ?r; cases ?t; cases ?ts) (auto simp: Let_def)
  then have "get_prop obj (js ''role'') = Some (JString (entry_role e))"
    and "get_prop obj (js ''text'') = Some (JString (entry_text e))"
    and "get_prop obj (js ''timestamp'') = Some (JNumber (entry_timestamp e))"
    by (auto dest: z_string_min_Inr z_number_Inr)
  then show ?thesis
    by (simp add: JObject entry_json_def strip_entry_def restrict_props_def)
qed (use assms in \<open>simp_all add: z_entry_def\<close>)

lemma entries_issues:
  "concat (map issues_of (map (\<lambda>(i, x). z_entry (p @ [Index i]) x) (enumerate n xs))) = []
   \<longleftrightarrow> list_all spec_valid_entry xs"
  by (induction xs arbitrary: n) (simp_all add: z_entry_issues z_entry_isl)

lemma entries_values:
  assumes "list_all spec_valid_entry xs"
  shows "map entry_json (values_of (map (\<lambda>(i, x). z_entry (p @ [Index i]) x) (enumerate n xs)))
           = map strip_entry xs
         \<and> length (values_of (map (\<lambda>(i, x). z_entry (p @ [Index i]) x) (enumerate n xs)))
           = length xs"
  using assms
proof (induction xs arbitrary: n)
  case Nil
  show ?case by (simp add: values_of_def)
next
  case (Cons x xs)
  from Cons.prems have "\<not> isl (z_entry (p @ [Index n]) x)"
    by (simp add: z_entry_isl)
  then obtain e where e: "z_entry (p @ [Index n]) x = Inr e"
    by (cases "z_entry (p @ [Index n]) x") simp_all
  then have "entry_json e = strip_entry x" by (rule z_entry_json)
  moreover from Cons.prems have "list_all spec_valid_entry xs" by simp
  note Cons.IH [OF this, of "Suc n"]
  ultimately show ?case
    using e by (simp add: values_of_def)
qed

lemma z_transcript_isl:
  "isl (z_transcript p v) \<longleftrightarrow>
   \<not> (case v of Some (JArray xs) \<Rightarrow> 1 \<le> length xs \<and> list_all spec_valid_entry xs | _ \<Rightarrow> False)"
proof (cases v)
  case None
  then show ?thesis by (simp add: z_transcript_def)
next
  case (Some x)
  show ?thesis
  proof (cases x)
    case (JArray xs)
    show ?thesis
      unfolding Some JArray z_transcript_def Let_def option.case json.case
      by (simp only: append_is_Nil_conv entries_issues) (cases xs; simp)
  qed (simp_all add: Some z_transcript_def)
qed

lemma z_transcript_issues: "issues_of (z_transcript p v) = [] \<longleftrightarrow> \<not> isl (z_transcript p v)"
  by (auto simp: z_transcript_def issues_of_def Let_def split: option.splits json.splits)

lemma z_transcript_Inr:
  assumes "z_transcript p (get_prop obj (js ''transcript'')) = Inr es"
  shows "map entry_json es = map strip_entry (body_transcript (JObject obj))
         \<and> length es = length (body_transcript (JObject obj))"
proof -
  from assms have "\<not> isl (z_transcript p (get_prop obj (js ''transcript'')))" by simp
  then obtain xs where xs: "get_prop obj (js ''transcript'') = Some (JArray xs)"
    and valid: "list_all spec_valid_entry xs"
    by (auto simp: z_transcript_isl split: option.splits json.splits)
  from assms xs have "es = values_of (map (\<lambda>(i, x). z_entry (p @ [Index i]) x) (enumerate 0 xs))"
    by (auto simp: z_transcript_def Let_def split: if_splits)
  with entries_values [OF valid, of p 0] xs show ?thesis
    by (simp add: body_transcript_def)
qed

lemma TranscriptForwardSchema_fields:
  assumes "TranscriptForwardSchema_safeParse (JObject obj) = r"
  defines "c \<equiv> z_string_optional [Key (js ''callId'')] (get_prop obj (js ''callId''))"
    and "a \<equiv> z_string_optional [Key (js ''assistantId'')] (get_prop obj (js ''assistantId''))"
    and "s \<equiv> z_number_optional [Key (js ''startedAt'')] (get_prop obj (js ''startedAt''))"
    and "e \<equiv> z_number_optional [Key (js ''endedAt'')] (get_prop obj (js ''endedAt''))"
    and "t \<equiv> z_transcript [Key (js ''transcript'')] (get_prop obj (js ''transcript''))"
    and "m \<equiv> z_record_any_optional [Key (js ''metadata'')] (get_prop obj (js ''metadata''))"
  shows "(isl r \<longleftrightarrow> isl c \<or> isl a \<or> isl s \<or> isl e \<or> isl t \<or> isl m)
    \<and> (isl r \<longrightarrow> r = Inl (issues_of c @ issues_of a @ issues_of s @ issues_of e @
                          issues_of t @ issues_of m))
    \<and> (\<forall>payload. r = Inr payload \<longrightarrow>
          c = Inr (forward_callId payload) \<and> a = Inr (forward_assistantId payload) \<and>
          s = Inr (forward_startedAt payload) \<and> e = Inr (forward_endedAt payload) \<and>
          t = Inr (forward_transcript payload) \<and> m = Inr (forward_metadata payload))"
proof -
  have r: "r = (case (c, a, s, e, t, m) of
                (Inr callId, Inr assistantId, Inr startedAt', Inr endedAt', Inr transcript',
                 Inr metadata) \<Rightarrow>
                  Inr \<lparr>forward_callId = callId, forward_assistantId = assistantId,
                       forward_startedAt = startedAt', forward_endedAt = endedAt',
                       forward_transcript = transcript', forward_metadata = metadata\<rparr>
              | _ \<Rightarrow> Inl (issues_of c @ issues_of a @ issues_of s @ issues_of e @
                          issues_of t @ issues_of m))"
    using assms(1) unfolding TranscriptForwardSchema_safeParse_def c_def a_def s_def e_def t_def m_def
    by (simp only: Let_def json.case)
  show ?thesis
    unfolding r
    apply (cases c)
     apply (simp add: issues_of_Inl)
    apply (cases a)
     apply (simp add: issues_of_Inl)
    apply (cases s)
     apply (simp add: issues_of_Inl)
    apply (cases e)
     apply (simp add: issues_of_Inl)
    apply (cases t)
     apply (simp add: issues_of_Inl)
    apply (cases m)
     apply (simp add: issues_of_Inl)
    apply auto
    done
qed

lemma TranscriptForwardSchema_isl:
  "isl (TranscriptForwardSchema_safeParse req_body) \<longleftrightarrow> \<not> spec_valid_transcripts_body req_body"
proof (cases req_body)
  case (JObject obj)
  show ?thesis
    using TranscriptForwardSchema_fields [OF refl, of obj]
    by (simp add: JObject spec_valid_transcripts_body_def z_string_optional_isl
        z_number_optional_isl z_record_any_optional_isl z_transcript_isl)
qed (simp_all add: TranscriptForwardSchema_safeParse_def spec_valid_transcripts_body_def)

lemma TranscriptForwardSchema_issues:
  assumes "TranscriptForwardSchema_safeParse req_body = Inl issues"
  shows "issues \<noteq> []"
proof (cases req_body)
  case (JObject obj)
  let ?c = "z_string_optional [Key (js ''callId'')] (get_prop obj (js ''callId''))"
  let ?a = "z_string_optional [Key (js ''assistantId'')] (get_prop obj (js ''assistantId''))"
  let ?s = "z_number_optional [Key (js ''startedAt'')] (get_prop obj (js ''startedAt''))"
  let ?e = "z_number_optional [Key (js ''endedAt'')] (get_prop obj (js ''endedAt''))"
  let ?t = "z_transcript [Key (js ''transcript'')] (get_prop obj (js ''transcript''))"
  let ?m = "z_record_any_optional [Key (js ''metadata'')] (get_prop obj (js ''metadata''))"
  note fields = TranscriptForwardSchema_fields [OF refl, of obj]
  have parsed: "TranscriptForwardSchema_safeParse (JObject obj) = Inl issues"
    using assms unfolding JObject .
  then have failed: "isl (TranscriptForwardSchema_safeParse (JObject obj))"
    by (simp only: sum.disc)
  have "TranscriptForwardSchema_safeParse (JObject obj) =
      Inl (issues_of ?c @ issues_of ?a @ issues_of ?s @ issues_of ?e @ issues_of ?t @ issues_of ?m)"
    by (rule fields [THEN conjunct2, THEN conjunct1, THEN mp, OF failed])
  with parsed have eq:
    "issues = issues_of ?c @ issues_of ?a @ issues_of ?s @ issues_of ?e @ issues_of ?t @ issues_of ?m"
    by (simp only: sum.inject)
  have some: "isl ?c \<or> isl ?a \<or> isl ?s \<or> isl ?e \<or> isl ?t \<or> isl ?m"
    by (rule fields [THEN conjunct1, THEN iffD1, OF failed])
  show ?thesis
  proof
    assume "issues = []"
    with eq have "issues_of ?c = []" "issues_of ?a = []" "issues_of ?s = []"
      "issues_of ?e = []" "issues_of ?t = []" "issues_of ?m = []"
      by (simp_all only: append_is_Nil_conv Nil_is_append_conv)
    then have "\<not> isl ?c" "\<not> isl ?a" "\<not> isl ?s" "\<not> isl ?e" "\<not> isl ?t" "\<not> isl ?m"
      by (simp_all only: z_string_optional_issues z_number_optional_issues
          z_transcript_issues z_record_any_optional_issues simp_thms)
    with some show False by blast
  qed
next
  case JNull
  with assms show ?thesis by (auto simp: TranscriptForwardSchema_safeParse_def)
next
  case (JBool x)
  with assms show ?thesis by (auto simp: TranscriptForwardSchema_safeParse_def)
next
  case (JNumber x)
  with assms show ?thesis by (auto simp: TranscriptForwardSchema_safeParse_def)
next
  case (JString x)
  with assms show ?thesis by (auto simp: TranscriptForwardSchema_safeParse_def)
next
  case (JArray x)
  with assms show ?thesis by (auto simp: TranscriptForwardSchema_safeParse_def)
qed

lemma optional_string_restrict:
  "z_string_optional p (get_prop obj k) = Inr x \<Longrightarrow>
   optional_property k JString x = restrict_props [k] obj"
  by (auto simp: z_string_optional_def optional_property_def restrict_props_def
      split: option.splits json.splits)

lemma optional_number_restrict:
  "z_number_optional p (get_prop obj k) = Inr x \<Longrightarrow>
   optional_property k JNumber x = restrict_props [k] obj"
  by (auto simp: z_number_optional_def optional_property_def restrict_props_def
      split: option.splits json.splits)

lemma optional_record_restrict:
  "z_record_any_optional p (get_prop obj k) = Inr x \<Longrightarrow>
   optional_property k JObject x = map (map_prod id drop_proto) (restrict_props [k] obj)"
  by (auto simp: z_record_any_optional_def optional_property_def restrict_props_def drop_proto_def
      split: option.splits json.splits)

lemma restrict_props_Cons:
  "restrict_props (k # ks) obj = restrict_props [k] obj @ restrict_props ks obj"
  by (simp add: restrict_props_def)

lemma TranscriptForwardSchema_Inr:
  assumes "TranscriptForwardSchema_safeParse req_body = Inr payload"
  shows "stringify_payload payload = schema_restriction req_body
         \<and> length (forward_transcript payload) = length (body_transcript req_body)"
proof (cases req_body)
  case (JObject obj)
  from TranscriptForwardSchema_fields [OF refl, of obj] assms
  have c: "z_string_optional [Key (js ''callId'')] (get_prop obj (js ''callId''))
             = Inr (forward_callId payload)"
    and a: "z_string_optional [Key (js ''assistantId'')] (get_prop obj (js ''assistantId''))
             = Inr (forward_assistantId payload)"
    and s: "z_number_optional [Key (js ''startedAt'')] (get_prop obj (js ''startedAt''))
             = Inr (forward_startedAt payload)"
    and e: "z_number_optional [Key (js ''endedAt'')] (get_prop obj (js ''endedAt''))
             = Inr (forward_endedAt payload)"
    and t: "z_transcript [Key (js ''transcript'')] (get_prop obj (js ''transcript''))
             = Inr (forward_transcript payload)"
    and m: "z_record_any_optional [Key (js ''metadata'')] (get_prop obj (js ''metadata''))
             = Inr (forward_metadata payload)"
    by (simp_all add: JObject)
  note entries = z_transcript_Inr [OF t]
  show ?thesis
    unfolding JObject stringify_payload_def payload_json_def schema_restriction_def json.case
    by (simp only: restrict_props_Cons [of _ "_ # _"] optional_string_restrict [OF c]
        optional_string_restrict [OF a] optional_number_restrict [OF s]
        optional_number_restrict [OF e] optional_record_restrict [OF m] entries append_assoc)
qed (use assms in \<open>simp_all add: TranscriptForwardSchema_safeParse_def\<close>)

lemma transcripts_invalid:
  assumes "\<not> spec_valid_transcripts_body b"
  shows "\<exists>issues. issues \<noteq> [] \<and> TranscriptForwardSchema_safeParse b = Inl issues \<and>
           transcripts url fetch b =
             \<lparr>response = \<lparr>status = 400, body = ErrorDetails (js ''Invalid payload'') issues\<rparr>,
              requests = []\<rparr>"
proof -
  from assms have "isl (TranscriptForwardSchema_safeParse b)"
    by (simp only: TranscriptForwardSchema_isl simp_thms)
  then obtain issues where failed: "TranscriptForwardSchema_safeParse b = Inl issues"
    by (cases "TranscriptForwardSchema_safeParse b") simp_all
  then have "issues \<noteq> []" by (rule TranscriptForwardSchema_issues)
  moreover from failed have "transcripts url fetch b =
             \<lparr>response = \<lparr>status = 400, body = ErrorDetails (js ''Invalid payload'') issues\<rparr>,
              requests = []\<rparr>"
    by (simp add: transcripts_def)
  ultimately show ?thesis using failed by blast
qed

lemma transcripts_valid:
  assumes "spec_valid_transcripts_body b"
  shows "\<exists>payload. TranscriptForwardSchema_safeParse b = Inr payload \<and>
           stringify_payload payload = schema_restriction b \<and>
           length (forward_transcript payload) = length (body_transcript b)"
proof -
  from assms have "\<not> isl (TranscriptForwardSchema_safeParse b)"
    by (simp only: TranscriptForwardSchema_isl simp_thms)
  then obtain payload where ok: "TranscriptForwardSchema_safeParse b = Inr payload"
    by (cases "TranscriptForwardSchema_safeParse b") simp_all
  with TranscriptForwardSchema_Inr [OF ok] show ?thesis by blast
qed


section \<open>The transcript relay endpoint: responses\<close>

text \<open>
  C4. POST /api/transcripts answers 400, with the error and the non-empty list of
  validation issues, exactly when the body fails the schema (no \<open>transcript\<close>, or one with
  no entry, or an entry whose \<open>role\<close> or \<open>text\<close> is empty or whose \<open>timestamp\<close> is no
  number, and so on). A body that passes with more than 2000 entries gets 413. Otherwise
  the body is forwarded: 200 with \<open>ok: true\<close> when the webhook answers with an ok status,
  502 when it answers with another status or when the attempt throws.
\<close>

theorem transcripts_responses:
  "(status (response (transcripts url fetch b)) = 400 \<longleftrightarrow> \<not> spec_valid_transcripts_body b)
   \<and> (\<not> spec_valid_transcripts_body b \<longrightarrow>
        (\<exists>issues. issues \<noteq> [] \<and> TranscriptForwardSchema_safeParse b = Inl issues \<and>
           response (transcripts url fetch b) =
             \<lparr>status = 400, body = ErrorDetails (js ''Invalid payload'') issues\<rparr>))
   \<and> (spec_valid_transcripts_body b \<and> length (body_transcript b) > 2000 \<longrightarrow>
        response (transcripts url fetch b) =
          \<lparr>status = 413, body = ErrorBody (js ''Transcript too large'')\<rparr>)
   \<and> (spec_valid_transcripts_body b \<and> length (body_transcript b) \<le> 2000 \<longrightarrow>
        (\<exists>payload. TranscriptForwardSchema_safeParse b = Inr payload \<and>
           (case fetch url (stringify_payload payload) of
              Rejected \<Rightarrow>
                response (transcripts url fetch b) =
                  \<lparr>status = 502, body = ErrorBody (js ''Failed to forward transcript'')\<rparr>
            | Response ok text \<Rightarrow>
                if ok \<and> text \<noteq> None
                then response (transcripts url fetch b) = \<lparr>status = 200, body = OkTrue\<rparr>
                else response (transcripts url fetch b) =
                  \<lparr>status = 502, body = ErrorBody (js ''Failed to forward transcript'')\<rparr>)))"
proof (cases "spec_valid_transcripts_body b")
  case False
  from transcripts_invalid [OF False, of url fetch]
  obtain issues where "issues \<noteq> []" "TranscriptForwardSchema_safeParse b = Inl issues"
    "transcripts url fetch b =
       \<lparr>response = \<lparr>status = 400, body = ErrorDetails (js ''Invalid payload'') issues\<rparr>,
        requests = []\<rparr>"
    by blast
  with False show ?thesis by simp
next
  case True
  from transcripts_valid [OF True]
  obtain payload where ok: "TranscriptForwardSchema_safeParse b = Inr payload"
    and len: "length (forward_transcript payload) = length (body_transcript b)"
    by blast
  have not400: "status (response (transcripts url fetch b)) \<noteq> 400"
    by (simp add: transcripts_def ok split: fetch_result.splits option.splits)
  have large: "length (body_transcript b) > 2000 \<Longrightarrow>
      response (transcripts url fetch b) =
          \<lparr>status = 413, body = ErrorBody (js ''Transcript too large'')\<rparr>"
    by (simp add: transcripts_def ok len)
  have small: "length (body_transcript b) \<le> 2000 \<Longrightarrow>
      (case fetch url (stringify_payload payload) of
              Rejected \<Rightarrow>
                response (transcripts url fetch b) =
                  \<lparr>status = 502, body = ErrorBody (js ''Failed to forward transcript'')\<rparr>
            | Response ok text \<Rightarrow>
                if ok \<and> text \<noteq> None
                then response (transcripts url fetch b) = \<lparr>status = 200, body = OkTrue\<rparr>
                else response (transcripts url fetch b) =
                  \<lparr>status = 502, body = ErrorBody (js ''Failed to forward transcript'')\<rparr>)"
    by (auto simp: transcripts_def ok len split: fetch_result.splits option.splits)
  from True not400 large small ok show ?thesis by auto
qed


theorem transcripts_responses_witness:
  "spec_valid_transcripts_body
     (JObject [(js ''transcript'', JArray [JObject [(js ''role'', JString (js ''user'')),
        (js ''text'', JString (js ''hi'')), (js ''timestamp'', JNumber (Finite 1))]])])
   \<and> response (transcripts (Some (js ''https://n8n.example/hook'')) (\<lambda>_ _. Response True (Some []))
       (JObject [(js ''transcript'', JArray [JObject [(js ''role'', JString (js ''user'')),
          (js ''text'', JString (js ''hi'')), (js ''timestamp'', JNumber (Finite 1))]])]))
     = \<lparr>status = 200, body = OkTrue\<rparr>
   \<and> response (transcripts (Some (js ''https://n8n.example/hook'')) (\<lambda>_ _. Response False (Some []))
       (JObject [(js ''transcript'', JArray [JObject [(js ''role'', JString (js ''user'')),
          (js ''text'', JString (js ''hi'')), (js ''timestamp'', JNumber (Finite 1))]])]))
     = \<lparr>status = 502, body = ErrorBody (js ''Failed to forward transcript'')\<rparr>
   \<and> response (transcripts None (\<lambda>_ _. Rejected)
       (JObject [(js ''transcript'', JArray [JObject [(js ''role'', JString (js ''user'')),
          (js ''text'', JString (js ''hi'')), (js ''timestamp'', JNumber (Finite 1))]])]))
     = \<lparr>status = 502, body = ErrorBody (js ''Failed to forward transcript'')\<rparr>
   \<and> length (body_transcript (JObject [(js ''transcript'', JArray (replicate 2001
        (JObject [(js ''role'', JString (js ''user'')),
          (js ''text'', JString (js ''hi'')), (js ''timestamp'', JNumber (Finite 1))])))])) = 2001
   \<and> response (transcripts (Some (js ''https://n8n.example/hook'')) (\<lambda>_ _. Response True (Some []))
       (JObject [(js ''transcript'', JArray (replicate 2001
        (JObject [(js ''role'', JString (js ''user'')),
          (js ''text'', JString (js ''hi'')), (js ''timestamp'', JNumber (Finite 1))])))]))
     = \<lparr>status = 413, body = ErrorBody (js ''Transcript too large'')\<rparr>
   \<and> \<not> spec_valid_transcripts_body (JObject [(js ''transcript'', JArray [])])
   \<and> status (response (transcripts (Some (js ''https://n8n.example/hook''))
        (\<lambda>_ _. Response True (Some [])) (JObject [(js ''transcript'', JArray [])]))) = 400"
proof -
  let ?url = "Some (js ''https://n8n.example/hook'')"
  let ?ok = "\<lambda>(_::jsstring option) (_::json). Response True (Some [])"
  let ?no = "\<lambda>(_::jsstring option) (_::json). Response False (Some [])"
  let ?down = "\<lambda>(_::jsstring option) (_::json). Rejected"
  let ?entry = "JObject [(js ''role'', JString (js ''user'')),
          (js ''text'', JString (js ''hi'')), (js ''timestamp'', JNumber (Finite 1))]"
  let ?b = "JObject [(js ''transcript'', JArray [?entry])]"
  let ?big = "JObject [(js ''transcript'', JArray (replicate 2001 ?entry))]"
  let ?bad = "JObject [(js ''transcript'', JArray [])]"
  have entry: "spec_valid_entry ?entry"
    by (simp add: spec_valid_entry_def is_string_min_def is_number_def get_prop_def js_def)
  have valid: "spec_valid_transcripts_body ?b"
    by (simp add: spec_valid_transcripts_body_def when_present_def get_prop_def entry)
      (simp add: js_def)
  have small: "length (body_transcript ?b) \<le> 2000"
    by (simp add: body_transcript_def get_prop_def)
  have valid_big: "spec_valid_transcripts_body ?big"
    by (simp add: spec_valid_transcripts_body_def when_present_def get_prop_def entry
        list_all_iff)
      (simp add: js_def)
  have big: "length (body_transcript ?big) = 2001"
    by (simp add: body_transcript_def get_prop_def)
  have invalid: "\<not> spec_valid_transcripts_body ?bad"
    by (simp add: spec_valid_transcripts_body_def get_prop_def)
  from transcripts_responses [of ?url ?ok ?b] valid small
  have r200: "response (transcripts ?url ?ok ?b) = \<lparr>status = 200, body = OkTrue\<rparr>"
    by auto
  from transcripts_responses [of ?url ?no ?b] valid small
  have r502: "response (transcripts ?url ?no ?b) =
      \<lparr>status = 502, body = ErrorBody (js ''Failed to forward transcript'')\<rparr>"
    by auto
  from transcripts_responses [of None ?down ?b] valid small
  have r502': "response (transcripts None ?down ?b) =
      \<lparr>status = 502, body = ErrorBody (js ''Failed to forward transcript'')\<rparr>"
    by auto
  from transcripts_responses [of ?url ?ok ?big] valid_big big
  have r413: "response (transcripts ?url ?ok ?big) =
      \<lparr>status = 413, body = ErrorBody (js ''Transcript too large'')\<rparr>"
    by auto
  from transcripts_responses [of ?url ?ok ?bad] invalid
  have r400: "status (response (transcripts ?url ?ok ?bad)) = 400"
    by blast
  show ?thesis
    by (rule conjI [OF valid conjI [OF r200 conjI [OF r502 conjI [OF r502' conjI [OF big
        conjI [OF r413 conjI [OF invalid r400]]]]]]])
qed


section \<open>The transcript relay endpoint: the forwarded body\<close>

text \<open>
  C5 as stated fails: what the handler forwards is \<open>parsed.data\<close>, and the schema's objects
  keep the properties they name only. A request with a property \<open>sessionTag\<close> and an entry
  with a property \<open>confidence\<close> passes the validation and is forwarded without them.
\<close>

theorem transcripts_drops_unknown_fields:
  "spec_valid_transcripts_body
     (JObject [(js ''transcript'', JArray [JObject [(js ''role'', JString (js ''user'')),
        (js ''text'', JString (js ''hi'')), (js ''timestamp'', JNumber (Finite 1)),
        (js ''confidence'', JNumber (Finite 1))]]),
       (js ''sessionTag'', JString (js ''demo''))])
   \<and> requests (transcripts (Some (js ''https://n8n.example/hook'')) (\<lambda>_ _. Response True (Some []))
       (JObject [(js ''transcript'', JArray [JObject [(js ''role'', JString (js ''user'')),
          (js ''text'', JString (js ''hi'')), (js ''timestamp'', JNumber (Finite 1)),
          (js ''confidence'', JNumber (Finite 1))]]),
         (js ''sessionTag'', JString (js ''demo''))]))
     = [(Some (js ''https://n8n.example/hook''),
         JObject [(js ''transcript'', JArray [JObject [(js ''role'', JString (js ''user'')),
           (js ''text'', JString (js ''hi'')), (js ''timestamp'', JNumber (Finite 1))]])])]
   \<and> JObject [(js ''transcript'', JArray [JObject [(js ''role'', JString (js ''user'')),
           (js ''text'', JString (js ''hi'')), (js ''timestamp'', JNumber (Finite 1))]])]
     \<noteq> JObject [(js ''transcript'', JArray [JObject [(js ''role'', JString (js ''user'')),
          (js ''text'', JString (js ''hi'')), (js ''timestamp'', JNumber (Finite 1)),
          (js ''confidence'', JNumber (Finite 1))]]),
         (js ''sessionTag'', JString (js ''demo''))]"
proof -
  let ?url = "Some (js ''https://n8n.example/hook'')"
  let ?ok = "\<lambda>(_::jsstring option) (_::json). Response True (Some [])"
  let ?entry = "JObject [(js ''role'', JString (js ''user'')),
          (js ''text'', JString (js ''hi'')), (js ''timestamp'', JNumber (Finite 1)),
          (js ''confidence'', JNumber (Finite 1))]"
  let ?b = "JObject [(js ''transcript'', JArray [?entry]), (js ''sessionTag'', JString (js ''demo''))]"
  have entry: "spec_valid_entry ?entry"
    by (simp add: spec_valid_entry_def is_string_min_def is_number_def get_prop_def js_def)
  have valid: "spec_valid_transcripts_body ?b"
    by (simp add: spec_valid_transcripts_body_def when_present_def get_prop_def entry)
      (simp add: js_def)
  from transcripts_valid [OF valid]
  obtain payload where ok: "TranscriptForwardSchema_safeParse ?b = Inr payload"
    and body: "stringify_payload payload = schema_restriction ?b"
    and len: "length (forward_transcript payload) = length (body_transcript ?b)"
    by blast
  have small: "length (body_transcript ?b) \<le> 2000"
    by (simp add: body_transcript_def get_prop_def)
  have restricted: "schema_restriction ?b =
      JObject [(js ''transcript'', JArray [JObject [(js ''role'', JString (js ''user'')),
           (js ''text'', JString (js ''hi'')), (js ''timestamp'', JNumber (Finite 1))]])]"
    by (simp add: schema_restriction_def restrict_props_def strip_entry_def body_transcript_def
        get_prop_def js_def)
  from small have sent: "requests (transcripts ?url ?ok ?b) = [(?url, schema_restriction ?b)]"
    by (simp add: transcripts_def ok len body)
  have differ: "JObject [(js ''transcript'', JArray [JObject [(js ''role'', JString (js ''user'')),
           (js ''text'', JString (js ''hi'')), (js ''timestamp'', JNumber (Finite 1))]])] \<noteq> ?b"
    by simp
  from sent restricted have sent':
    "requests (transcripts ?url ?ok ?b) =
       [(?url, JObject [(js ''transcript'', JArray [JObject [(js ''role'', JString (js ''user'')),
           (js ''text'', JString (js ''hi'')), (js ''timestamp'', JNumber (Finite 1))]])])]"
    by (simp only:)
  show ?thesis
    by (rule conjI [OF valid conjI [OF sent' differ]])
qed


lemma JSON_stringify_finite: "all_finite v \<Longrightarrow> JSON_stringify v = v"
proof (induction v)
  case (JNumber n)
  then show ?case by (cases n) simp_all
next
  case (JArray xs)
  then have "\<And>x. x \<in> set xs \<Longrightarrow> JSON_stringify x = x"
    by (simp add: list_all_iff)
  then show ?case by (simp add: map_idI)
next
  case (JObject obj)
  have "map_prod id JSON_stringify kv = kv" if "kv \<in> set obj" for kv
  proof (cases kv)
    case (Pair k x)
    from JObject.prems that Pair have "all_finite x"
      by (force simp: list_all_iff)
    with JObject.IH [of kv x] that Pair show ?thesis by simp
  qed
  then show ?case by (simp add: map_idI)
qed simp_all

lemma drop_proto_absent:
  assumes "\<not> metadata_has_proto (JObject obj)"
  shows "map (map_prod id drop_proto) (restrict_props [js ''metadata''] obj) =
         restrict_props [js ''metadata''] obj"
proof (cases "get_prop obj (js ''metadata'')")
  case None
  then show ?thesis by (simp add: restrict_props_def)
next
  case (Some v)
  have "drop_proto v = v"
  proof (cases v)
    case (JObject m)
    with assms Some have "js ''__proto__'' \<notin> fst ` set m"
      by (simp add: metadata_has_proto_def)
    then have "\<forall>kv\<in>set m. fst kv \<noteq> js ''__proto__''"
      by (metis imageI)
    then have "filter (\<lambda>kv. fst kv \<noteq> js ''__proto__'') m = m"
      by (simp add: filter_id_conv)
    then show ?thesis by (simp add: JObject drop_proto_def)
  qed (simp_all add: drop_proto_def)
  with Some show ?thesis by (simp add: restrict_props_def)
qed

lemma schema_restriction_plain:
  assumes "all_finite (named_fields b)" and "\<not> metadata_has_proto b"
  shows "schema_restriction b = named_fields b"
proof (cases b)
  case (JObject obj)
  from assms(2) have clean: "\<not> metadata_has_proto (JObject obj)"
    unfolding JObject .
  have "schema_restriction b = JSON_stringify (named_fields b)"
    unfolding JObject schema_restriction_def named_fields_def json.case
    by (simp only: drop_proto_absent [OF clean])
  with assms(1) show ?thesis by (simp only: JSON_stringify_finite)
qed (simp_all add: schema_restriction_def named_fields_def)

text \<open>
  C5, amended. For every request body that passes the validation and the size check, the
  handler makes one POST to the configured webhook URL, and its JSON body is the
  serialisation of the parsed request: the properties \<open>callId\<close>, \<open>assistantId\<close>,
  \<open>startedAt\<close>, \<open>endedAt\<close>, \<open>transcript\<close> and \<open>metadata\<close> that are present, each
  transcript entry restricted to \<open>role\<close>, \<open>text\<close> and \<open>timestamp\<close>, \<open>metadata\<close> without a
  property named \<open>__proto__\<close>, and every infinite number written \<open>null\<close>. When these
  fields hold no infinite number and \<open>metadata\<close> has no property \<open>__proto__\<close>, that is the
  request body restricted to the fields the schema names, with the received values. For
  every other body nothing is posted.
\<close>

theorem transcripts_forwards_schema_fields:
  "(spec_valid_transcripts_body b \<and> length (body_transcript b) \<le> 2000 \<longrightarrow>
      requests (transcripts url fetch b) = [(url, schema_restriction b)])
   \<and> (\<not> (spec_valid_transcripts_body b \<and> length (body_transcript b) \<le> 2000) \<longrightarrow>
      requests (transcripts url fetch b) = [])
   \<and> (all_finite (named_fields b) \<and> \<not> metadata_has_proto b \<longrightarrow>
      schema_restriction b = named_fields b)"
proof (cases "spec_valid_transcripts_body b")
  case False
  from transcripts_invalid [OF False, of url fetch] False show ?thesis
    by (auto simp: schema_restriction_plain)
next
  case True
  from transcripts_valid [OF True]
  obtain payload where ok: "TranscriptForwardSchema_safeParse b = Inr payload"
    and body: "stringify_payload payload = schema_restriction b"
    and len: "length (forward_transcript payload) = length (body_transcript b)"
    by blast
  with True show ?thesis by (simp add: transcripts_def schema_restriction_plain)
qed

theorem transcripts_forwards_schema_fields_witness:
  "spec_valid_transcripts_body
     (JObject [(js ''callId'', JString (js ''c-1'')),
       (js ''transcript'', JArray [JObject [(js ''role'', JString (js ''user'')),
        (js ''text'', JString (js ''hi'')), (js ''timestamp'', JNumber (Infinite True)),
        (js ''confidence'', JNumber (Finite 1))]]),
       (js ''metadata'', JObject [(js ''__proto__'', JObject []),
          (js ''tag'', JArray [JNumber (Infinite False)])]),
       (js ''extra'', JBool True)])
   \<and> requests (transcripts (Some (js ''https://n8n.example/hook'')) (\<lambda>_ _. Rejected)
       (JObject [(js ''callId'', JString (js ''c-1'')),
       (js ''transcript'', JArray [JObject [(js ''role'', JString (js ''user'')),
        (js ''text'', JString (js ''hi'')), (js ''timestamp'', JNumber (Infinite True)),
        (js ''confidence'', JNumber (Finite 1))]]),
       (js ''metadata'', JObject [(js ''__proto__'', JObject []),
          (js ''tag'', JArray [JNumber (Infinite False)])]),
       (js ''extra'', JBool True)]))
     = [(Some (js ''https://n8n.example/hook''),
         JObject [(js ''callId'', JString (js ''c-1'')),
           (js ''transcript'', JArray [JObject [(js ''role'', JString (js ''user'')),
             (js ''text'', JString (js ''hi'')), (js ''timestamp'', JNull)]]),
           (js ''metadata'', JObject [(js ''tag'', JArray [JNull])])])]
   \<and> \<not> spec_valid_transcripts_body JNull
   \<and> requests (transcripts (Some (js ''https://n8n.example/hook'')) (\<lambda>_ _. Rejected) JNull) = []
   \<and> all_finite (named_fields
       (JObject [(js ''transcript'', JArray [JObject [(js ''role'', JString (js ''user'')),
          (js ''text'', JString (js ''hi'')), (js ''timestamp'', JNumber (Finite 1))]]),
         (js ''metadata'', JObject [(js ''tag'', JString (js ''demo''))])]))
   \<and> \<not> metadata_has_proto
       (JObject [(js ''transcript'', JArray [JObject [(js ''role'', JString (js ''user'')),
          (js ''text'', JString (js ''hi'')), (js ''timestamp'', JNumber (Finite 1))]]),
         (js ''metadata'', JObject [(js ''tag'', JString (js ''demo''))])])
   \<and> schema_restriction
       (JObject [(js ''transcript'', JArray [JObject [(js ''role'', JString (js ''user'')),
          (js ''text'', JString (js ''hi'')), (js ''timestamp'', JNumber (Finite 1))]]),
         (js ''metadata'', JObject [(js ''tag'', JString (js ''demo''))])])
     = JObject [(js ''transcript'', JArray [JObject [(js ''role'', JString (js ''user'')),
          (js ''text'', JString (js ''hi'')), (js ''timestamp'', JNumber (Finite 1))]]),
         (js ''metadata'', JObject [(js ''tag'', JString (js ''demo''))])]"
proof -
  let ?url = "Some (js ''https://n8n.example/hook'')"
  let ?down = "\<lambda>(_::jsstring option) (_::json). Rejected"
  let ?entry = "JObject [(js ''role'', JString (js ''user'')),
          (js ''text'', JString (js ''hi'')), (js ''timestamp'', JNumber (Infinite True)),
          (js ''confidence'', JNumber (Finite 1))]"
  let ?b = "JObject [(js ''callId'', JString (js ''c-1'')), (js ''transcript'', JArray [?entry]),
    (js ''metadata'', JObject [(js ''__proto__'', JObject []),
          (js ''tag'', JArray [JNumber (Infinite False)])]),
    (js ''extra'', JBool True)]"
  let ?sent = "JObject [(js ''callId'', JString (js ''c-1'')),
           (js ''transcript'', JArray [JObject [(js ''role'', JString (js ''user'')),
             (js ''text'', JString (js ''hi'')), (js ''timestamp'', JNull)]]),
           (js ''metadata'', JObject [(js ''tag'', JArray [JNull])])]"
  let ?plain = "JObject [(js ''transcript'', JArray [JObject [(js ''role'', JString (js ''user'')),
          (js ''text'', JString (js ''hi'')), (js ''timestamp'', JNumber (Finite 1))]]),
         (js ''metadata'', JObject [(js ''tag'', JString (js ''demo''))])]"
  have entry: "spec_valid_entry ?entry"
    by (simp add: spec_valid_entry_def is_string_min_def is_number_def get_prop_def js_def)
  have valid: "spec_valid_transcripts_body ?b"
    by (simp add: spec_valid_transcripts_body_def when_present_def get_prop_def entry
        is_string_min_def is_object_def)
      (simp add: js_def)
  have small: "length (body_transcript ?b) \<le> 2000"
    by (simp add: body_transcript_def get_prop_def js_def)
  have restricted: "schema_restriction ?b = ?sent"
    by (simp add: schema_restriction_def restrict_props_def strip_entry_def drop_proto_def
        body_transcript_def get_prop_def js_def)
  note inst = transcripts_forwards_schema_fields [of ?b ?url ?down]
  have "requests (transcripts ?url ?down ?b) = [(?url, schema_restriction ?b)]"
    by (rule inst [THEN conjunct1, THEN mp, OF conjI [OF valid small]])
  then have sent: "requests (transcripts ?url ?down ?b) = [(?url, ?sent)]"
    by (simp only: restricted)
  have invalid: "\<not> spec_valid_transcripts_body JNull"
    by (simp add: spec_valid_transcripts_body_def)
  from transcripts_forwards_schema_fields [of JNull ?url ?down] invalid
  have none: "requests (transcripts ?url ?down JNull) = []"
    by blast
  have named: "named_fields ?plain = ?plain"
    by (simp add: named_fields_def restrict_props_def strip_entry_def body_transcript_def
        get_prop_def js_def)
  have finite: "all_finite (named_fields ?plain)"
    by (simp add: named)
  have no_proto: "\<not> metadata_has_proto ?plain"
    by (simp add: metadata_has_proto_def get_prop_def js_def)
  note plain_part = transcripts_forwards_schema_fields [of ?plain ?url ?down,
      THEN conjunct2, THEN conjunct2, THEN mp]
  have "schema_restriction ?plain = named_fields ?plain"
    by (rule plain_part [OF conjI [OF finite no_proto]])
  then have same: "schema_restriction ?plain = ?plain"
    by (simp only: named)
  show ?thesis
    by (rule conjI [OF valid conjI [OF sent conjI [OF invalid conjI [OF none
        conjI [OF finite conjI [OF no_proto same]]]]]])
qed

end
